theory Spec2Isabelle
  imports Complex_Main "HOL-Library.Multiset" "HOL-Library.Log_Nat"
begin

section \<open>SEPERA: the submit handler of \<^verbatim>\<open>full_app\<close>\<close>

text \<open>
  The development embeds the body of \<^verbatim>\<open>if submitted:\<close> in \<^verbatim>\<open>SEPERA.py\<close>
  (lines 176 to 376): the two feature dictionaries \<^verbatim>\<open>pt_data\<close> and \<^verbatim>\<open>pt_data_r\<close>,
  the overlays pasted on the prostate diagram, the six text labels and the two calls of
  the explainer.

  Python's \<^verbatim>\<open>int\<close> is \<^typ>\<open>int\<close>. A finite Python \<^verbatim>\<open>float\<close> is the real number it
  denotes, and every arithmetic operation on floats rounds its exact result to a double
  (\<open>round_double\<close> below), as IEEE 754 binary64 arithmetic does. Two things are left
  out: \<^verbatim>\<open>-0.0\<close> and \<^verbatim>\<open>0.0\<close>, which Python compares equal, are the one real 0; and
  no operation of the handler is ever applied to an infinity or a \<^verbatim>\<open>nan\<close>.
\<close>

subsection \<open>Values and exceptions\<close>

datatype py_error = ZeroDivisionError | OverflowError | KeyError

text \<open>
  The value stored under a key of the feature dictionary: an integer, a finite float,
  one of the two infinite floats, or the \<^verbatim>\<open>nan\<close> that pandas returns for the maximum
  of an empty column.
\<close>

datatype pyval = PyInt int | PyFloat real | PyInf | PyNegInf | NaN

subsection \<open>Rounding to a double\<close>

text \<open>
  The integer nearest to \<open>y\<close>, the even one of the two when \<open>y\<close> lies half way.
\<close>

definition round_half_even :: "real \<Rightarrow> int" where
  "round_half_even y =
     (let n = \<lfloor>y\<rfloor>; r = y - real_of_int n
      in if r < 1 / 2 then n else if 1 / 2 < r then n + 1 else if even n then n else n + 1)"

text \<open>
  The exponent \<open>e\<close> of the power of two with \<open>2 powi e \<le> a < 2 powi (e + 1)\<close>, for
  \<open>a > 0\<close>, computed from the bit length of an integer (lemmas \<open>binade_lower\<close> and
  \<open>binade_upper\<close>).
\<close>

definition binade :: "real \<Rightarrow> int" where
  "binade a = (if 1 \<le> a then bitlen \<lfloor>a\<rfloor> - 1 else - bitlen (\<lceil>1 / a\<rceil> - 1))"

text \<open>
  Round to nearest, ties to even, in binary64: a double is an integer of at most 53 bits
  times a power of two whose exponent is at least \<open>-1074\<close>, so a number in the binade
  \<open>e\<close> is rounded to a multiple of \<open>2 powi max (e - 52) (-1074)\<close>; a result that reaches
  \<open>2 ^ 1024\<close> is an infinity.
\<close>

definition round_double :: "real \<Rightarrow> pyval" where
  "round_double x =
     (if x = 0 then PyFloat 0
      else let a = \<bar>x\<bar>; q = max (binade a - 52) (- 1074);
               v = real_of_int (round_half_even (a / 2 powi q)) * 2 powi q
           in if 2 ^ 1024 \<le> v then (if 0 < x then PyInf else PyNegInf)
              else PyFloat (if 0 < x then v else - v))"

text \<open>
  \<^verbatim>\<open>a / b\<close> on two floats raises \<^verbatim>\<open>ZeroDivisionError\<close> when \<^verbatim>\<open>b\<close> is zero, and is
  otherwise the rounded quotient: an infinity on overflow, with no exception.
\<close>

definition float_truediv :: "real \<Rightarrow> real \<Rightarrow> py_error + pyval" where
  "float_truediv a b = (if b = 0 then Inl ZeroDivisionError else Inr (round_double (a / b)))"

text \<open>
  \<^verbatim>\<open>a / b\<close> on two ints is true division: \<^verbatim>\<open>ZeroDivisionError\<close> when \<^verbatim>\<open>b\<close> is zero,
  otherwise the exact quotient rounded once to a double, and \<^verbatim>\<open>OverflowError\<close> when
  that is too large for a float.
\<close>

definition int_truediv :: "int \<Rightarrow> int \<Rightarrow> py_error + real" where
  "int_truediv a b =
     (if b = 0 then Inl ZeroDivisionError
      else case round_double (real_of_int a / real_of_int b) of
             PyFloat q \<Rightarrow> Inr q
           | _ \<Rightarrow> Inl OverflowError)"

text \<open>\<^verbatim>\<open>a * b\<close> on two finite floats: the rounded product, an infinity on overflow.\<close>

definition float_mul :: "real \<Rightarrow> real \<Rightarrow> pyval" where
  "float_mul a b = round_double (a * b)"

subsection \<open>The form\<close>

text \<open>
  One field per widget of the sidebar form (lines 140 to 172), under the name of the
  variable the widget's value is bound to. Integer widgets (\<^verbatim>\<open>number_input\<close> with
  integer bounds, \<^verbatim>\<open>selectbox\<close> over integer keys) give ints, the others floats: a
  field of type \<^typ>\<open>real\<close> holds the real number the widget's double denotes.
\<close>

record form =
  age :: int
  psa :: real
  vol :: real
  p_high :: real
  perineural_inv :: int
  base_findings :: int
  base_p_inv :: real
  mid_findings :: int
  mid_p_inv :: real
  apex_findings :: int
  apex_p_inv :: real
  pos_core :: int
  taken_core :: int
  base_findings_r :: int
  base_p_inv_r :: real
  mid_findings_r :: int
  mid_p_inv_r :: real
  apex_findings_r :: int
  apex_p_inv_r :: real
  pos_core_r :: int
  taken_core_r :: int

text \<open>The values the widgets show before the user changes anything.\<close>

definition default_form :: form where
  "default_form =
     \<lparr> age = 60, psa = 7, vol = 40, p_high = 22.5, perineural_inv = 1,
       base_findings = 3, base_p_inv = 7.5,
       mid_findings = 3, mid_p_inv = 5,
       apex_findings = 0, apex_p_inv = 0,
       pos_core = 3, taken_core = 6,
       base_findings_r = 5, base_p_inv_r = 45,
       mid_findings_r = 4, mid_p_inv_r = 45,
       apex_findings_r = 3, apex_p_inv_r = 20,
       pos_core_r = 5, taken_core_r = 8 \<rparr>"

text \<open>
  The bounds the widgets declare: \<^verbatim>\<open>number_input(label, min, max, value)\<close> and the
  keys of \<^verbatim>\<open>CHOICES\<close> and \<^verbatim>\<open>G_CHOICES\<close> offered by each \<^verbatim>\<open>selectbox\<close>.
\<close>

definition grade_ok :: "int \<Rightarrow> bool" where
  "grade_ok g = (0 \<le> g \<and> g \<le> 5)"

definition percent_ok :: "real \<Rightarrow> bool" where
  "percent_ok p = (0 \<le> p \<and> p \<le> 100)"

definition cores_ok :: "int \<Rightarrow> bool" where
  "cores_ok n = (0 \<le> n \<and> n \<le> 30)"

definition in_domain :: "form \<Rightarrow> bool" where
  "in_domain f =
     (0 \<le> age f \<and> age f \<le> 100 \<and> 0 \<le> psa f \<and> psa f \<le> 200 \<and>
      0 \<le> vol f \<and> vol f \<le> 300 \<and> percent_ok (p_high f) \<and>
      (perineural_inv f = 0 \<or> perineural_inv f = 1) \<and>
      grade_ok (base_findings f) \<and> percent_ok (base_p_inv f) \<and>
      grade_ok (mid_findings f) \<and> percent_ok (mid_p_inv f) \<and>
      grade_ok (apex_findings f) \<and> percent_ok (apex_p_inv f) \<and>
      cores_ok (pos_core f) \<and> cores_ok (taken_core f) \<and>
      grade_ok (base_findings_r f) \<and> percent_ok (base_p_inv_r f) \<and>
      grade_ok (mid_findings_r f) \<and> percent_ok (mid_p_inv_r f) \<and>
      grade_ok (apex_findings_r f) \<and> percent_ok (apex_p_inv_r f) \<and>
      cores_ok (pos_core_r f) \<and> cores_ok (taken_core_r f))"

subsection \<open>The data frame of a lobe and its sort\<close>

text \<open>
  A frame is the list of its rows, a row the pair of its \<^verbatim>\<open>'Gleason'\<close> and
  \<^verbatim>\<open>'% core involvement'\<close> cells. The index labels 0, 1, 2 that pandas keeps beside
  each row are left out: nothing in the handler reads them.
\<close>

type_synonym frame = "(int \<times> real) list"

definition gleason_t :: "form \<Rightarrow> int list" where
  "gleason_t f = [base_findings f, mid_findings f, apex_findings f]"

definition p_inv_t :: "form \<Rightarrow> real list" where
  "p_inv_t f = [base_p_inv f, mid_p_inv f, apex_p_inv f]"

definition g_p_inv :: "form \<Rightarrow> frame" where
  "g_p_inv f = zip (gleason_t f) (p_inv_t f)"

definition gleason_t_r :: "form \<Rightarrow> int list" where
  "gleason_t_r f = [base_findings_r f, mid_findings_r f, apex_findings_r f]"

definition p_inv_t_r :: "form \<Rightarrow> real list" where
  "p_inv_t_r f = [base_p_inv_r f, mid_p_inv_r f, apex_p_inv_r f]"

definition g_p_inv_r :: "form \<Rightarrow> frame" where
  "g_p_inv_r f = zip (gleason_t_r f) (p_inv_t_r f)"

text \<open>
  \<^verbatim>\<open>sort_values(by=['Gleason', '% core involvement'], ascending=False)\<close>: rows in
  descending order of grade, and of involvement among rows of one grade. A row goes
  before the rows it is not smaller than, so rows that agree on both keys keep the
  order they came in.
\<close>

definition row_before :: "int \<times> real \<Rightarrow> int \<times> real \<Rightarrow> bool" where
  "row_before a b = (fst b < fst a \<or> (fst a = fst b \<and> snd b \<le> snd a))"

fun place_row :: "int \<times> real \<Rightarrow> frame \<Rightarrow> frame" where
  "place_row r [] = [r]"
| "place_row r (x # xs) = (if row_before r x then r # x # xs else x # place_row r xs)"

fun sort_values :: "frame \<Rightarrow> frame" where
  "sort_values [] = []"
| "sort_values (r # rs) = place_row r (sort_values rs)"

definition sort_g_p_inv :: "form \<Rightarrow> frame" where
  "sort_g_p_inv f = sort_values (g_p_inv f)"

definition sort_g_p_inv_r :: "form \<Rightarrow> frame" where
  "sort_g_p_inv_r f = sort_values (g_p_inv_r f)"

text \<open>The two columns of a frame, and \<^verbatim>\<open>.max()\<close> of a column.\<close>

definition col_Gleason :: "frame \<Rightarrow> int list" where
  "col_Gleason df = map fst df"

definition col_core_involvement :: "frame \<Rightarrow> real list" where
  "col_core_involvement df = map snd df"

fun series_max :: "('a::linorder \<Rightarrow> pyval) \<Rightarrow> 'a list \<Rightarrow> pyval" where
  "series_max c [] = NaN"
| "series_max c (x # xs) = c (fold max xs x)"

subsection \<open>The feature dictionaries\<close>

text \<open>
  A dict literal keeps its keys in the order they are written, and
  \<^verbatim>\<open>pd.DataFrame(pt_data, index=[0])\<close> takes its columns in that order: the dictionary
  is the list of its items. The values are evaluated from top to bottom, so the
  division for \<^verbatim>\<open>'PSA density'\<close> is tried before the one for \<^verbatim>\<open>'% positive cores'\<close>.
  In \<^verbatim>\<open>(pos_core/taken_core)*100\<close> the quotient of the two ints is rounded to a float,
  and its product by 100 is rounded again.
\<close>

type_synonym features = "(string \<times> pyval) list"

definition features_list :: "string list" where
  "features_list =
     [''Age at Biopsy'',
      ''Worst Gleason Grade Group'',
      ''PSA density'',
      ''Perineural invasion'',
      ''% positive cores'',
      ''% Gleason pattern 4/5'',
      ''Max % core involvement'',
      ''Base finding'',
      ''Base % core involvement'',
      ''Mid % core involvement'',
      ''Apex % core involvement'']"

definition pt_data :: "form \<Rightarrow> py_error + features" where
  "pt_data f =
     (case float_truediv (psa f) (vol f) of
        Inl e \<Rightarrow> Inl e
      | Inr density \<Rightarrow>
          (case int_truediv (pos_core f) (taken_core f) of
             Inl e \<Rightarrow> Inl e
           | Inr ratio \<Rightarrow>
               Inr [(''Age at Biopsy'', PyInt (age f)),
                    (''Worst Gleason Grade Group'',
                       series_max PyInt (col_Gleason (sort_g_p_inv f))),
                    (''PSA density'', density),
                    (''Perineural invasion'', PyInt (perineural_inv f)),
                    (''% positive cores'', float_mul ratio 100),
                    (''% Gleason pattern 4/5'', PyFloat (p_high f)),
                    (''Max % core involvement'',
                       series_max PyFloat (col_core_involvement (sort_g_p_inv f))),
                    (''Base finding'', PyInt (base_findings f)),
                    (''Base % core involvement'', PyFloat (base_p_inv f)),
                    (''Mid % core involvement'', PyFloat (mid_p_inv f)),
                    (''Apex % core involvement'', PyFloat (apex_p_inv f))]))"

text \<open>
  The right lobe's dictionary. Its \<^verbatim>\<open>'Worst Gleason Grade Group'\<close> is read, as in the
  source (line 219), from \<^verbatim>\<open>sort_g_p_inv\<close>, the frame of the left lobe; every other
  lobe-level entry is read from the right lobe's variables.
\<close>

definition pt_data_r :: "form \<Rightarrow> py_error + features" where
  "pt_data_r f =
     (case float_truediv (psa f) (vol f) of
        Inl e \<Rightarrow> Inl e
      | Inr density \<Rightarrow>
          (case int_truediv (pos_core_r f) (taken_core_r f) of
             Inl e \<Rightarrow> Inl e
           | Inr ratio \<Rightarrow>
               Inr [(''Age at Biopsy'', PyInt (age f)),
                    (''Worst Gleason Grade Group'',
                       series_max PyInt (col_Gleason (sort_g_p_inv f))),
                    (''PSA density'', density),
                    (''Perineural invasion'', PyInt (perineural_inv f)),
                    (''% positive cores'', float_mul ratio 100),
                    (''% Gleason pattern 4/5'', PyFloat (p_high f)),
                    (''Max % core involvement'',
                       series_max PyFloat (col_core_involvement (sort_g_p_inv_r f))),
                    (''Base finding'', PyInt (base_findings_r f)),
                    (''Base % core involvement'', PyFloat (base_p_inv_r f)),
                    (''Mid % core involvement'', PyFloat (mid_p_inv_r f)),
                    (''Apex % core involvement'', PyFloat (apex_p_inv_r f))]))"

text \<open>\<^verbatim>\<open>d[k]\<close> on a dictionary given as its items.\<close>

definition lookup :: "features \<Rightarrow> string \<Rightarrow> pyval option" where
  "lookup d k = map_of d k"

subsection \<open>The annotated diagram\<close>

text \<open>
  An image expression is a file opened with \<^verbatim>\<open>PIL.Image.open\<close>, possibly passed
  through \<^verbatim>\<open>ImageOps.flip\<close> and \<^verbatim>\<open>ImageOps.mirror\<close>. What the handler does to the
  diagram and to the explainer is a list of events, in the order of the calls.
\<close>

datatype image = Open string | Flip image | Mirror image

datatype event =
    Paste image "int \<times> int"
  | DrawText "int \<times> int" string
  | ShapValues features

definition G_CHOICES :: "int \<rightharpoonup> string" where
  "G_CHOICES =
     map_of [(0, ''Benign''),
             (1, ''ISUP Grade 1 (Gleason 3+3)''),
             (2, ''ISUP Grade 2 (Gleason 3+4)''),
             (3, ''ISUP Grade 3 (Gleason 4+3)''),
             (4, ''ISUP Grade 4 (Gleason 4+4/5+3/3+5)''),
             (5, ''ISUP Grade 5 (Gleason 4+5/5+4/5+5)'')]"

text \<open>
  The text of one site, \<^verbatim>\<open>str(G_CHOICES[g]) + '\n' + '% core inv: ' + str(p)\<close>.
  A grade that is no key of \<^verbatim>\<open>G_CHOICES\<close> raises \<^verbatim>\<open>KeyError\<close>. Python's \<^verbatim>\<open>str\<close> of a
  float (the shortest decimal that reads back as the same double) is the parameter
  \<open>str\<close>.
\<close>

definition site_text :: "(real \<Rightarrow> string) \<Rightarrow> int \<Rightarrow> real \<Rightarrow> py_error + string" where
  "site_text str g p =
     (case G_CHOICES g of
        None \<Rightarrow> Inl KeyError
      | Some name \<Rightarrow> Inr (name @ [CHR 0x0A] @ ''% core inv: '' @ str p))"

text \<open>
  The overlays of the six sites: five \<^verbatim>\<open>if\<close> statements each, one per grade from 1
  to 5, every one opening an image, transforming it and pasting it at the site's corner.
\<close>

definition paste_bl :: "int \<Rightarrow> event list" where
  "paste_bl g =
     (if g = 1 then [Paste (Flip (Open ''Images/Corner 1.png'')) (145, 958)] else []) @
     (if g = 2 then [Paste (Flip (Open ''Images/Corner 2.png'')) (145, 958)] else []) @
     (if g = 3 then [Paste (Flip (Open ''Images/Corner 3.png'')) (145, 958)] else []) @
     (if g = 4 then [Paste (Flip (Open ''Images/Corner 4.png'')) (145, 958)] else []) @
     (if g = 5 then [Paste (Flip (Open ''Images/Corner 5.png'')) (145, 958)] else [])"

definition paste_ml :: "int \<Rightarrow> event list" where
  "paste_ml g =
     (if g = 1 then [Paste (Open ''Images/Mid 1.png'') (145, 606)] else []) @
     (if g = 2 then [Paste (Open ''Images/Mid 2.png'') (145, 606)] else []) @
     (if g = 3 then [Paste (Open ''Images/Mid 3.png'') (145, 606)] else []) @
     (if g = 4 then [Paste (Open ''Images/Mid 4.png'') (145, 606)] else []) @
     (if g = 5 then [Paste (Open ''Images/Mid 5.png'') (145, 606)] else [])"

definition paste_al :: "int \<Rightarrow> event list" where
  "paste_al g =
     (if g = 1 then [Paste (Open ''Images/Corner 1.png'') (145, 130)] else []) @
     (if g = 2 then [Paste (Open ''Images/Corner 2.png'') (145, 130)] else []) @
     (if g = 3 then [Paste (Open ''Images/Corner 3.png'') (145, 130)] else []) @
     (if g = 4 then [Paste (Open ''Images/Corner 4.png'') (145, 130)] else []) @
     (if g = 5 then [Paste (Open ''Images/Corner 5.png'') (145, 130)] else [])"

definition paste_br :: "int \<Rightarrow> event list" where
  "paste_br g =
     (if g = 1 then [Paste (Flip (Mirror (Open ''Images/Corner 1.png''))) (1104, 958)] else []) @
     (if g = 2 then [Paste (Flip (Mirror (Open ''Images/Corner 2.png''))) (1104, 958)] else []) @
     (if g = 3 then [Paste (Flip (Mirror (Open ''Images/Corner 3.png''))) (1104, 958)] else []) @
     (if g = 4 then [Paste (Flip (Mirror (Open ''Images/Corner 4.png''))) (1104, 958)] else []) @
     (if g = 5 then [Paste (Flip (Mirror (Open ''Images/Corner 5.png''))) (1104, 958)] else [])"

definition paste_mr :: "int \<Rightarrow> event list" where
  "paste_mr g =
     (if g = 1 then [Paste (Open ''Images/Mid 1.png'') (1542, 606)] else []) @
     (if g = 2 then [Paste (Open ''Images/Mid 2.png'') (1542, 606)] else []) @
     (if g = 3 then [Paste (Open ''Images/Mid 3.png'') (1542, 606)] else []) @
     (if g = 4 then [Paste (Open ''Images/Mid 4.png'') (1542, 606)] else []) @
     (if g = 5 then [Paste (Open ''Images/Mid 5.png'') (1542, 606)] else [])"

definition paste_ar :: "int \<Rightarrow> event list" where
  "paste_ar g =
     (if g = 1 then [Paste (Mirror (Open ''Images/Corner 1.png'')) (1104, 130)] else []) @
     (if g = 2 then [Paste (Mirror (Open ''Images/Corner 2.png'')) (1104, 130)] else []) @
     (if g = 3 then [Paste (Mirror (Open ''Images/Corner 3.png'')) (1104, 130)] else []) @
     (if g = 4 then [Paste (Mirror (Open ''Images/Corner 4.png'')) (1104, 130)] else []) @
     (if g = 5 then [Paste (Mirror (Open ''Images/Corner 5.png'')) (1104, 130)] else [])"

subsection \<open>The handler\<close>

text \<open>
  What one submission does, in the order of the source: both dictionaries, the six
  texts, the overlays, the six \<^verbatim>\<open>draw.text\<close> calls, then
  \<^verbatim>\<open>explainer.shap_values\<close> on the left and on the right features. The result is the
  list of events that happened and the exception that ended the run, if one did. An
  exception raised while a dictionary or a text is built ends the run before the first
  event: \<open>try_bind\<close> is that early exit. Widgets, the page layout, the plots and failures of the libraries themselves
  (a missing image file, an explainer that rejects its input) are not modelled.
\<close>

definition try_bind ::
  "py_error + 'a \<Rightarrow> ('a \<Rightarrow> event list \<times> py_error option) \<Rightarrow> event list \<times> py_error option" where
  "try_bind r k = (case r of Inl e \<Rightarrow> ([], Some e) | Inr v \<Rightarrow> k v)"

definition submitted :: "(real \<Rightarrow> string) \<Rightarrow> form \<Rightarrow> event list \<times> py_error option" where
  "submitted str f =
     try_bind (pt_data f) (\<lambda>pt_features.
     try_bind (pt_data_r f) (\<lambda>pt_features_r.
     try_bind (site_text str (base_findings f) (base_p_inv f)) (\<lambda>base_L.
     try_bind (site_text str (mid_findings f) (mid_p_inv f)) (\<lambda>mid_L.
     try_bind (site_text str (apex_findings f) (apex_p_inv f)) (\<lambda>apex_L.
     try_bind (site_text str (base_findings_r f) (base_p_inv_r f)) (\<lambda>base_R.
     try_bind (site_text str (mid_findings_r f) (mid_p_inv_r f)) (\<lambda>mid_R.
     try_bind (site_text str (apex_findings_r f) (apex_p_inv_r f)) (\<lambda>apex_R.
       (paste_bl (base_findings f) @ paste_ml (mid_findings f) @
        paste_al (apex_findings f) @ paste_br (base_findings_r f) @
        paste_mr (mid_findings_r f) @ paste_ar (apex_findings_r f) @
        [DrawText (525, 1110) base_L, DrawText (205, 690) mid_L,
         DrawText (525, 275) apex_L, DrawText (1300, 1110) base_R,
         DrawText (1590, 690) mid_R, DrawText (1300, 275) apex_R,
         ShapValues pt_features, ShapValues pt_features_r], None)))))))))"

text \<open>The feature vectors the explainer was called on during a run.\<close>

fun shap_values_arg :: "event \<Rightarrow> features list" where
  "shap_values_arg (ShapValues d) = [d]"
| "shap_values_arg (Paste img xy) = []"
| "shap_values_arg (DrawText xy txt) = []"

definition explainer_calls :: "event list \<times> py_error option \<Rightarrow> features list" where
  "explainer_calls run = concat (map shap_values_arg (fst run))"

subsection \<open>Reading a derived feature\<close>

text \<open>
  The value a derivation stored under a key: \<open>None\<close> when the derivation raised, or
  when the dictionary has no such key.
\<close>

definition feature :: "py_error + features \<Rightarrow> string \<Rightarrow> pyval option" where
  "feature r k = (case r of Inl e \<Rightarrow> None | Inr d \<Rightarrow> lookup d k)"


subsection \<open>The specification's dominant involvement\<close>

text \<open>
  The specification's reading of \<open>MaxPercentCoreInvolvement\<close>, in its words: sort by
  severityGrade descending, then percentCoreInvolvement descending, and take the first
  row's involvement value. It is stated here to be compared with what \<open>pt_data\<close>
  stores; no definition above uses it.
\<close>

definition spec_dominant_involvement :: "frame \<Rightarrow> pyval" where
  "spec_dominant_involvement df =
     (case sort_values df of [] \<Rightarrow> NaN | r # _ \<Rightarrow> PyFloat (snd r))"

subsection \<open>File names of the overlays\<close>

text \<open>
  The names of the image files as a function of the grade, to state which file each
  site pastes: \<^verbatim>\<open>'Images/Corner g.png'\<close> and \<^verbatim>\<open>'Images/Mid g.png'\<close>.
\<close>

definition grade_digit :: "int \<Rightarrow> string" where
  "grade_digit g = [''012345'' ! nat g]"

definition corner_file :: "int \<Rightarrow> string" where
  "corner_file g = ''Images/Corner '' @ grade_digit g @ ''.png''"

definition mid_file :: "int \<Rightarrow> string" where
  "mid_file g = ''Images/Mid '' @ grade_digit g @ ''.png''"

subsection \<open>Submissions used as examples\<close>

text \<open>
  The left lobe of the specification's scenario: two sites tied at grade 4 with
  involvements 30 and 60, the third at grade 2 with involvement 90.
\<close>

definition tied_form :: form where
  "tied_form =
     default_form \<lparr> base_findings := 4, base_p_inv := 30,
                    mid_findings := 4, mid_p_inv := 60,
                    apex_findings := 2, apex_p_inv := 90 \<rparr>"

text \<open>Seven positive cores of 25 taken on the left.\<close>

definition seven_of_25_form :: form where
  "seven_of_25_form = default_form \<lparr> pos_core := 7, taken_core := 25 \<rparr>"

text \<open>
  A PSA of 1.0 with a volume of 3.0, and a PSA of 200.0 with a volume of
  \<open>2 powi (-1030)\<close>, a double between the bounds 0.0 and 300.0 of the volume widget.
\<close>

definition one_third_form :: form where
  "one_third_form = default_form \<lparr> psa := 1, vol := 3 \<rparr>"

definition tiny_volume_form :: form where
  "tiny_volume_form = default_form \<lparr> psa := 200, vol := 1 / 2 ^ 1030 \<rparr>"

text \<open>No core taken on the left; no core taken on the right; a volume of zero.\<close>

definition no_cores_form :: form where
  "no_cores_form = default_form \<lparr> taken_core := 0 \<rparr>"

definition no_cores_r_form :: form where
  "no_cores_r_form = default_form \<lparr> taken_core_r := 0 \<rparr>"

definition no_volume_form :: form where
  "no_volume_form = default_form \<lparr> vol := 0 \<rparr>"


text \<open>
  What Python's \<^verbatim>\<open>str\<close> prints for the involvements of the default submission:
  \<^verbatim>\<open>7.5\<close>, \<^verbatim>\<open>5.0\<close>, \<^verbatim>\<open>0.0\<close>, \<^verbatim>\<open>45.0\<close> and \<^verbatim>\<open>20.0\<close>.
\<close>

definition str_default :: "real \<Rightarrow> string" where
  "str_default p =
     (if p = 7.5 then ''7.5'' else if p = 5 then ''5.0'' else if p = 0 then ''0.0''
      else if p = 45 then ''45.0'' else ''20.0'')"

section \<open>Properties\<close>

subsection \<open>Rounding to a double\<close>

lemma binade_lower:
  assumes "0 < a"
  shows "2 powi binade a \<le> a"
proof (cases "1 \<le> a")
  case True
  define n where "n = \<lfloor>a\<rfloor>"
  have n: "0 < n" using True by (simp add: n_def)
  have k: "0 \<le> bitlen n - 1" using n bitlen_eq_zero_iff [of n] bitlen_nonneg [of n] by linarith
  have "(2::int) ^ nat (bitlen n - 1) \<le> n" using bitlen_bounds [OF n] by simp
  then have "real_of_int (2 ^ nat (bitlen n - 1)) \<le> real_of_int n" by linarith
  then have "(2::real) ^ nat (bitlen n - 1) \<le> real_of_int n" by simp
  also have "\<dots> \<le> a" by (simp add: n_def)
  finally show ?thesis
    using True k by (simp add: binade_def n_def power_int_nonneg_exp)
next
  case False
  define N where "N = \<lceil>1 / a\<rceil>"
  define k where "k = bitlen (N - 1)"
  have t: "1 < 1 / a" using assms False by simp
  have N: "0 < N - 1" using t by (simp add: N_def)
  have "N - 1 < 2 ^ nat k" using bitlen_bounds [OF N] by (simp add: k_def)
  then have "N \<le> 2 ^ nat k" by linarith
  then have "real_of_int N \<le> 2 ^ nat k" by (metis of_int_le_iff of_int_numeral of_int_power)
  moreover have "1 / a \<le> real_of_int N" by (simp add: N_def)
  ultimately have "1 / a \<le> 2 ^ nat k" by linarith
  then have "1 / 2 ^ nat k \<le> a" using assms by (simp add: field_simps)
  moreover have "0 \<le> k" by (simp add: k_def bitlen_nonneg)
  ultimately show ?thesis
    using False by (simp add: binade_def N_def k_def power_int_minus power_int_nonneg_exp field_simps)
qed

lemma binade_upper:
  assumes "0 < a"
  shows "a < 2 powi (binade a + 1)"
proof (cases "1 \<le> a")
  case True
  define n where "n = \<lfloor>a\<rfloor>"
  have n: "0 < n" using True by (simp add: n_def)
  have k: "0 \<le> bitlen n" by (rule bitlen_nonneg)
  have "n < 2 ^ nat (bitlen n)" using bitlen_bounds [OF n] by simp
  then have "n + 1 \<le> 2 ^ nat (bitlen n)" by linarith
  then have "real_of_int (n + 1) \<le> real_of_int (2 ^ nat (bitlen n))" by linarith
  then have "real_of_int n + 1 \<le> 2 ^ nat (bitlen n)" by simp
  moreover have "a < real_of_int n + 1" by (simp add: n_def)
  ultimately have "a < 2 ^ nat (bitlen n)" by linarith
  then show ?thesis
    using True k by (simp add: binade_def n_def power_int_nonneg_exp)
next
  case False
  define N where "N = \<lceil>1 / a\<rceil>"
  define k where "k = bitlen (N - 1)"
  have t: "1 < 1 / a" using assms False by simp
  have N: "0 < N - 1" using t by (simp add: N_def)
  have k: "1 \<le> k" using N bitlen_eq_zero_iff [of "N - 1"] bitlen_nonneg [of "N - 1"]
    unfolding k_def by linarith
  have "2 ^ nat (k - 1) \<le> N - 1" using bitlen_bounds [OF N] by (simp add: k_def)
  then have "real_of_int (2 ^ nat (k - 1)) \<le> real_of_int (N - 1)" by linarith
  then have "2 ^ nat (k - 1) \<le> real_of_int N - 1" by simp
  moreover have "real_of_int N - 1 < 1 / a" by (simp add: N_def) linarith
  ultimately have "2 ^ nat (k - 1) < 1 / a" by linarith
  then have "a < 1 / 2 ^ nat (k - 1)" using assms by (simp add: field_simps)
  moreover have "2 powi (- k + 1) = (1::real) / 2 ^ nat (k - 1)"
    using k power_int_minus_divide [of "2::real" "k - 1"] by (simp add: power_int_nonneg_exp)
  ultimately show ?thesis
    using False by (simp add: binade_def N_def k_def)
qed

lemma powi2_less_imp:
  assumes "(2::real) powi m < 2 powi n"
  shows "m < n"
proof (rule ccontr)
  assume "\<not> m < n"
  then have "(2::real) powi n \<le> 2 powi m" by (intro power_int_increasing) auto
  with assms show False by linarith
qed

lemma binade_unique:
  assumes "0 < a" and "2 powi e \<le> a" and "a < 2 powi (e + 1)"
  shows "binade a = e"
proof -
  have "(2::real) powi e < 2 powi (binade a + 1)"
    using assms(2) binade_upper [OF assms(1)] by linarith
  then have "e < binade a + 1" by (rule powi2_less_imp)
  moreover have "(2::real) powi binade a < 2 powi (e + 1)"
    using assms(3) binade_lower [OF assms(1)] by linarith
  then have "binade a < e + 1" by (rule powi2_less_imp)
  ultimately show ?thesis by linarith
qed

lemma round_half_even_le:
  assumes "y \<le> real_of_int n"
  shows "round_half_even y \<le> n"
proof (cases "\<lfloor>y\<rfloor> = n")
  case True
  then have "y = real_of_int n" using assms by linarith
  then show ?thesis by (simp add: round_half_even_def Let_def)
next
  case False
  moreover have "\<lfloor>y\<rfloor> \<le> n" using assms by (simp add: floor_le_iff)
  ultimately have "\<lfloor>y\<rfloor> + 1 \<le> n" by linarith
  then show ?thesis by (simp add: round_half_even_def Let_def)
qed

lemma round_half_even_ge:
  assumes "real_of_int n \<le> y"
  shows "n \<le> round_half_even y"
proof -
  have "n \<le> \<lfloor>y\<rfloor>" using assms by (simp add: le_floor_iff)
  then show ?thesis
    by (auto simp: round_half_even_def Let_def)
qed

lemma round_half_even_nearest:
  assumes "real_of_int n - 1 / 2 < y" and "y < real_of_int n + 1 / 2"
  shows "round_half_even y = n"
proof (cases "real_of_int n \<le> y")
  case True
  then have "\<lfloor>y\<rfloor> = n" using assms by linarith
  then show ?thesis using assms by (simp add: round_half_even_def Let_def)
next
  case False
  then have "\<lfloor>y\<rfloor> = n - 1" using assms by linarith
  then show ?thesis using assms False by (simp add: round_half_even_def Let_def)
qed

lemma round_double_pos:
  assumes "0 < x" and "2 powi e \<le> x" and "x < 2 powi (e + 1)"
  shows "round_double x =
     (if 2 ^ 1024 \<le> real_of_int (round_half_even (x / 2 powi max (e - 52) (- 1074))) *
                       2 powi max (e - 52) (- 1074)
      then PyInf
      else PyFloat (real_of_int (round_half_even (x / 2 powi max (e - 52) (- 1074))) *
                      2 powi max (e - 52) (- 1074)))"
  using assms binade_unique [OF assms] by (simp add: round_double_def Let_def)

lemma round_double_normal:
  assumes "0 < x" and "2 powi e \<le> x" and "x < 2 powi (e + 1)"
    and "- 1022 \<le> e" and "e \<le> 1022"
  shows "round_double x =
     PyFloat (real_of_int (round_half_even (x / 2 powi (e - 52))) * 2 powi (e - 52))"
proof -
  let ?q = "e - 52"
  let ?m = "round_half_even (x / 2 powi ?q)"
  have q: "max (e - 52) (- 1074) = ?q" using assms(4) by simp
  have pq: "(0::real) < 2 powi ?q" by simp
  have "x / 2 powi ?q < 2 powi (e + 1) / 2 powi ?q"
    using assms(3) pq by (simp add: divide_strict_right_mono)
  also have "\<dots> = 2 powi 53"
    by (simp add: power_int_diff [symmetric])
  finally have "x / 2 powi ?q \<le> real_of_int (2 ^ 53)" by simp
  then have "?m \<le> 2 ^ 53" by (rule round_half_even_le)
  then have "real_of_int ?m \<le> 2 powi 53" by simp
  then have "real_of_int ?m * 2 powi ?q \<le> 2 powi 53 * 2 powi ?q"
    using pq by (simp add: mult_right_mono)
  also have "\<dots> = 2 powi (e + 1)"
  proof -
    have "(2::real) powi (53 + ?q) = 2 powi 53 * 2 powi ?q" by (rule power_int_add) simp
    moreover have "53 + ?q = e + 1" by simp
    ultimately show ?thesis by (simp only:)
  qed
  also have "\<dots> \<le> 2 powi 1023"
    using assms(5) by (intro power_int_increasing) auto
  also have "\<dots> < 2 ^ 1024" by simp
  finally have "\<not> 2 ^ 1024 \<le> real_of_int ?m * 2 powi ?q" by simp
  then show ?thesis
    using round_double_pos [OF assms(1-3)] q by simp
qed

lemma round_double_overflow:
  assumes "2 ^ 1024 \<le> x"
  shows "round_double x = PyInf"
proof -
  have x: "0 < x" using assms by (smt (verit) zero_less_power)
  define e where "e = binade x"
  have lo: "2 powi e \<le> x" and hi: "x < 2 powi (e + 1)"
    using binade_lower [OF x] binade_upper [OF x] by (simp_all add: e_def)
  have "(2::real) powi 1024 < 2 powi (e + 1)" using assms hi by simp
  then have e: "1024 \<le> e" using powi2_less_imp by fastforce
  let ?q = "e - 52"
  let ?m = "round_half_even (x / 2 powi ?q)"
  have q: "max (e - 52) (- 1074) = ?q" using e by simp
  have pq: "(0::real) < 2 powi ?q" by simp
  have "(2::real) powi 52 = 2 powi e / 2 powi ?q"
    by (simp add: power_int_diff [symmetric])
  also have "\<dots> \<le> x / 2 powi ?q"
    using lo pq by (simp add: divide_right_mono)
  finally have "real_of_int (2 ^ 52) \<le> x / 2 powi ?q" by simp
  then have "2 ^ 52 \<le> ?m" by (rule round_half_even_ge)
  then have "2 powi 52 \<le> real_of_int ?m" by simp
  then have m: "2 powi 52 * 2 powi ?q \<le> real_of_int ?m * 2 powi ?q"
    using pq by (simp add: mult_right_mono)
  have "(2::real) ^ 1024 = 2 powi 1024" by simp
  also have "\<dots> \<le> 2 powi e"
    using e by (intro power_int_increasing) auto
  also have "\<dots> = 2 powi 52 * 2 powi ?q"
  proof -
    have "(2::real) powi (52 + ?q) = 2 powi 52 * 2 powi ?q" by (rule power_int_add) simp
    moreover have "52 + ?q = e" by simp
    ultimately show ?thesis by (simp only:)
  qed
  also note m
  finally have "2 ^ 1024 \<le> real_of_int ?m * 2 powi ?q" .
  then show ?thesis
    using round_double_pos [OF x lo hi] q x by simp
qed

lemma round_double_finite:
  assumes "\<bar>x\<bar> < 2 ^ 1023"
  shows "\<exists>v. round_double x = PyFloat v"
proof (cases "x = 0")
  case True
  then show ?thesis by (simp add: round_double_def)
next
  case False
  define a where "a = \<bar>x\<bar>"
  define q where "q = max (binade a - 52) (- 1074)"
  define m where "m = round_half_even (a / 2 powi q)"
  have a: "0 < a" using False by (simp add: a_def)
  have "(2::real) powi binade a < 2 powi 1023"
    using binade_lower [OF a] assms by (simp add: a_def)
  then have "binade a < 1023" by (rule powi2_less_imp)
  then have q: "q \<le> 970" by (simp add: q_def)
  have pq: "(0::real) < 2 powi q" by simp
  have "m \<le> \<lceil>a / 2 powi q\<rceil>"
    unfolding m_def by (rule round_half_even_le) simp
  then have "real_of_int m \<le> real_of_int \<lceil>a / 2 powi q\<rceil>" by simp
  also have "\<dots> < a / 2 powi q + 1" by linarith
  finally have "real_of_int m * 2 powi q < (a / 2 powi q + 1) * 2 powi q"
    using pq by (simp add: mult_strict_right_mono)
  also have "\<dots> = a + 2 powi q"
    using pq by (simp add: field_simps)
  also have "\<dots> \<le> a + 2 powi 970"
  proof -
    have "(2::real) powi q \<le> 2 powi 970"
      using q by (intro power_int_increasing) auto
    then show ?thesis by (simp only: add_left_mono)
  qed
  also have "\<dots> < 2 ^ 1023 + 2 powi 970"
    using assms by (simp add: a_def)
  also have "\<dots> < 2 ^ 1024" by simp
  finally have "\<not> 2 ^ 1024 \<le> real_of_int m * 2 powi q" by simp
  then show ?thesis
    using False by (simp add: round_double_def Let_def a_def [symmetric] q_def [symmetric]
      m_def [symmetric])
qed

lemma round_double_eval:
  assumes "0 < x" and "2 powi e \<le> x" and "x < 2 powi (e + 1)"
    and "- 1022 \<le> e" and "e \<le> 1022"
    and "real_of_int n - 1 / 2 < x / 2 powi (e - 52)"
    and "x / 2 powi (e - 52) < real_of_int n + 1 / 2"
  shows "round_double x = PyFloat (real_of_int n * 2 powi (e - 52))"
  using round_double_normal [OF assms(1-5)] round_half_even_nearest [OF assms(6,7)] by simp

text \<open>Values the examples need, each with its binade and its rounded significand.\<close>

lemma round_double_examples:
  "round_double (3 / 6) = PyFloat (1 / 2)"
  "round_double (5 / 8) = PyFloat (5 / 8)"
  "round_double (1 / 2 * 100) = PyFloat 50"
  "round_double (5 / 8 * 100) = PyFloat (125 / 2)"
  "round_double (7 / 40) = PyFloat (3152519739159347 / 2 ^ 54)"
  "round_double (7 / 25) = PyFloat (5044031582654956 / 2 ^ 54)"
  "round_double (5044031582654956 / 2 ^ 54 * 100) = PyFloat (7881299347898369 / 2 ^ 48)"
  "round_double (700 / 25) = PyFloat 28"
  "round_double (1 / 3) = PyFloat (6004799503160661 / 2 ^ 54)"
  using round_double_eval [of "1 / 2" "- 1" "2 ^ 52"]
    round_double_eval [of "5 / 8" "- 1" "5 * 2 ^ 50"]
    round_double_eval [of "50" "5" "25 * 2 ^ 48"]
    round_double_eval [of "125 / 2" "5" "125 * 2 ^ 46"]
    round_double_eval [of "7 / 40" "- 3" 6305039478318694]
    round_double_eval [of "7 / 25" "- 2" 5044031582654956]
    round_double_eval [of "5044031582654956 / 2 ^ 54 * 100" 4 7881299347898369]
    round_double_eval [of "28" "4" "7 * 2 ^ 50"]
    round_double_eval [of "1 / 3" "- 2" 6004799503160661]
  by simp_all

lemma round_double_tiny_volume: "round_double (200 / (1 / 2 ^ 1030)) = PyInf"
  by (rule round_double_overflow) simp

subsection \<open>Division of ints\<close>

lemma int_truediv_Inr_iff:
  "int_truediv a b = Inr q \<longleftrightarrow>
     b \<noteq> 0 \<and> round_double (real_of_int a / real_of_int b) = PyFloat q"
  by (auto simp: int_truediv_def split: pyval.splits)

lemma int_truediv_ZeroDivisionError_iff:
  "int_truediv a b = Inl ZeroDivisionError \<longleftrightarrow> b = 0"
  by (auto simp: int_truediv_def split: pyval.splits)

lemma int_truediv_returns:
  assumes "b \<noteq> 0" and "int_truediv a b \<noteq> Inl OverflowError"
  shows "\<exists>q. int_truediv a b = Inr q"
  using assms by (auto simp: int_truediv_def split: pyval.splits)

lemma int_truediv_no_overflow:
  assumes "\<bar>a\<bar> < 2 ^ 1023"
  shows "int_truediv a b \<noteq> Inl OverflowError"
proof (cases "b = 0")
  case True
  then show ?thesis by (simp add: int_truediv_def)
next
  case False
  then have "1 \<le> \<bar>real_of_int b\<bar>" by (simp add: abs_if)
  then have "\<bar>real_of_int a\<bar> / \<bar>real_of_int b\<bar> \<le> \<bar>real_of_int a\<bar> / 1"
    by (intro divide_left_mono) auto
  moreover have "\<bar>real_of_int a\<bar> < 2 ^ 1023"
  proof -
    have "real_of_int \<bar>a\<bar> < real_of_int (2 ^ 1023)" using assms by (simp only: of_int_less_iff)
    then show ?thesis by simp
  qed
  ultimately have "\<bar>real_of_int a / real_of_int b\<bar> < 2 ^ 1023" by simp
  then obtain v where "round_double (real_of_int a / real_of_int b) = PyFloat v"
    using round_double_finite by blast
  then show ?thesis using False by (simp add: int_truediv_def)
qed

lemma int_truediv_overflows: "int_truediv (10 ^ 400) 6 = Inl OverflowError"
proof -
  have "round_double (real_of_int (10 ^ 400) / real_of_int 6) = PyInf"
    by (rule round_double_overflow) simp
  then show ?thesis by (simp add: int_truediv_def)
qed

subsection \<open>The sort keeps the rows, and a column maximum does not see their order\<close>

lemma mset_place_row: "mset (place_row r df) = add_mset r (mset df)"
  by (induction df) auto

lemma mset_sort_values: "mset (sort_values df) = mset df"
  by (induction df) (auto simp: mset_place_row)

lemma series_max_set:
  assumes "set xs = set ys"
  shows "series_max c xs = series_max c ys"
proof (cases xs)
  case Nil
  with assms show ?thesis by simp
next
  case (Cons x xs')
  with assms obtain y ys' where ys: "ys = y # ys'" by (cases ys) auto
  have "fold max xs' x = Max (set (x # xs'))" by (simp only: Max.set_eq_fold)
  also have "\<dots> = Max (set (y # ys'))" using assms Cons ys by simp
  also have "\<dots> = fold max ys' y" by (simp only: Max.set_eq_fold)
  finally show ?thesis using Cons ys by simp
qed

lemma series_max_map_mset:
  assumes "mset df = mset df'"
  shows "series_max c (map g df) = series_max c (map g df')"
proof (rule series_max_set)
  from assms have "set df = set df'" by (rule mset_eq_setD)
  then show "set (map g df) = set (map g df')" by simp
qed

lemma series_max_sorted:
  "series_max c (map g (sort_values df)) = series_max c (map g df)"
  by (rule series_max_map_mset) (rule mset_sort_values)

lemma series_max_three: "series_max c [x, y, z] = c (max (max x y) z)"
  by (simp add: max.commute max.left_commute)

lemma worst_left:
  "series_max PyInt (col_Gleason (sort_g_p_inv f)) =
     PyInt (max (max (base_findings f) (mid_findings f)) (apex_findings f))"
  unfolding col_Gleason_def sort_g_p_inv_def series_max_sorted
  by (simp add: g_p_inv_def gleason_t_def p_inv_t_def series_max_three
        del: series_max.simps)

lemma max_inv_left:
  "series_max PyFloat (col_core_involvement (sort_g_p_inv f)) =
     PyFloat (max (max (base_p_inv f) (mid_p_inv f)) (apex_p_inv f))"
  unfolding col_core_involvement_def sort_g_p_inv_def series_max_sorted
  by (simp add: g_p_inv_def gleason_t_def p_inv_t_def series_max_three
        del: series_max.simps)

lemma max_inv_right:
  "series_max PyFloat (col_core_involvement (sort_g_p_inv_r f)) =
     PyFloat (max (max (base_p_inv_r f) (mid_p_inv_r f)) (apex_p_inv_r f))"
  unfolding col_core_involvement_def sort_g_p_inv_r_def series_max_sorted
  by (simp add: g_p_inv_r_def gleason_t_r_def p_inv_t_r_def series_max_three
        del: series_max.simps)

subsection \<open>The sort orders the rows\<close>

lemma row_before_total: "row_before a b \<or> row_before b a"
  by (auto simp: row_before_def)

lemma row_before_trans: "row_before a b \<Longrightarrow> row_before b c \<Longrightarrow> row_before a c"
  by (auto simp: row_before_def)

lemma set_place_row: "set (place_row r df) = insert r (set df)"
  by (induction df) auto

lemma sorted_place_row:
  "sorted_wrt row_before df \<Longrightarrow> sorted_wrt row_before (place_row r df)"
proof (induction df)
  case Nil
  then show ?case by simp
next
  case (Cons x xs)
  show ?case
  proof (cases "row_before r x")
    case True
    with Cons.prems show ?thesis by (auto intro: row_before_trans)
  next
    case False
    then have "row_before x r" using row_before_total by blast
    with Cons False show ?thesis by (auto simp: set_place_row)
  qed
qed

lemma sorted_sort_values: "sorted_wrt row_before (sort_values df)"
  by (induction df) (auto simp: sorted_place_row)

subsection \<open>When a derivation returns, and what it returns\<close>

lemma pt_data_Inr:
  assumes "vol f \<noteq> 0" and "int_truediv (pos_core f) (taken_core f) = Inr q"
  shows "pt_data f =
     Inr [(''Age at Biopsy'', PyInt (age f)),
          (''Worst Gleason Grade Group'', series_max PyInt (col_Gleason (sort_g_p_inv f))),
          (''PSA density'', round_double (psa f / vol f)),
          (''Perineural invasion'', PyInt (perineural_inv f)),
          (''% positive cores'', round_double (q * 100)),
          (''% Gleason pattern 4/5'', PyFloat (p_high f)),
          (''Max % core involvement'',
             series_max PyFloat (col_core_involvement (sort_g_p_inv f))),
          (''Base finding'', PyInt (base_findings f)),
          (''Base % core involvement'', PyFloat (base_p_inv f)),
          (''Mid % core involvement'', PyFloat (mid_p_inv f)),
          (''Apex % core involvement'', PyFloat (apex_p_inv f))]"
  using assms by (simp add: pt_data_def float_truediv_def float_mul_def)

lemma pt_data_r_Inr:
  assumes "vol f \<noteq> 0" and "int_truediv (pos_core_r f) (taken_core_r f) = Inr q"
  shows "pt_data_r f =
     Inr [(''Age at Biopsy'', PyInt (age f)),
          (''Worst Gleason Grade Group'', series_max PyInt (col_Gleason (sort_g_p_inv f))),
          (''PSA density'', round_double (psa f / vol f)),
          (''Perineural invasion'', PyInt (perineural_inv f)),
          (''% positive cores'', round_double (q * 100)),
          (''% Gleason pattern 4/5'', PyFloat (p_high f)),
          (''Max % core involvement'',
             series_max PyFloat (col_core_involvement (sort_g_p_inv_r f))),
          (''Base finding'', PyInt (base_findings_r f)),
          (''Base % core involvement'', PyFloat (base_p_inv_r f)),
          (''Mid % core involvement'', PyFloat (mid_p_inv_r f)),
          (''Apex % core involvement'', PyFloat (apex_p_inv_r f))]"
  using assms by (simp add: pt_data_r_def float_truediv_def float_mul_def)



lemma pt_data_Inl:
  assumes "vol f = 0 \<or> taken_core f = 0"
  shows "pt_data f = Inl ZeroDivisionError"
  using assms by (auto simp add: pt_data_def float_truediv_def int_truediv_def)

lemma pt_data_r_Inl:
  assumes "vol f = 0 \<or> taken_core_r f = 0"
  shows "pt_data_r f = Inl ZeroDivisionError"
  using assms by (auto simp add: pt_data_r_def float_truediv_def int_truediv_def)

lemma pt_data_returns:
  assumes "vol f \<noteq> 0" and "taken_core f \<noteq> 0"
    and "int_truediv (pos_core f) (taken_core f) \<noteq> Inl OverflowError"
  obtains q where "round_double (real_of_int (pos_core f) / real_of_int (taken_core f)) = PyFloat q"
    and "int_truediv (pos_core f) (taken_core f) = Inr q"
  using int_truediv_returns [OF assms(2,3)] int_truediv_Inr_iff by blast

lemma pt_data_r_returns:
  assumes "vol f \<noteq> 0" and "taken_core_r f \<noteq> 0"
    and "int_truediv (pos_core_r f) (taken_core_r f) \<noteq> Inl OverflowError"
  obtains q where
    "round_double (real_of_int (pos_core_r f) / real_of_int (taken_core_r f)) = PyFloat q"
    and "int_truediv (pos_core_r f) (taken_core_r f) = Inr q"
  using int_truediv_returns [OF assms(2,3)] int_truediv_Inr_iff by blast

lemma submitted_raises:
  assumes "pt_data f = Inl e"
  shows "submitted str f = ([], Some e)"
  using assms by (simp add: submitted_def try_bind_def)

lemma submitted_raises_r:
  assumes "pt_data f = Inr d" and "pt_data_r f = Inl e"
  shows "submitted str f = ([], Some e)"
  using assms by (simp add: submitted_def try_bind_def)

lemma submitted_no_events:
  assumes "pt_data f = Inl e \<or> pt_data_r f = Inl e"
  shows "fst (submitted str f) = []"
  using assms by (cases "pt_data f") (auto simp add: submitted_def try_bind_def)

lemma worst_grade_group_values:
  assumes "vol f \<noteq> 0"
  shows "taken_core f \<noteq> 0 \<Longrightarrow>
           int_truediv (pos_core f) (taken_core f) \<noteq> Inl OverflowError \<Longrightarrow>
           feature (pt_data f) ''Worst Gleason Grade Group'' =
             Some (PyInt (max (max (base_findings f) (mid_findings f)) (apex_findings f)))"
    and "taken_core_r f \<noteq> 0 \<Longrightarrow>
           int_truediv (pos_core_r f) (taken_core_r f) \<noteq> Inl OverflowError \<Longrightarrow>
           feature (pt_data_r f) ''Worst Gleason Grade Group'' =
             Some (PyInt (max (max (base_findings f) (mid_findings f)) (apex_findings f)))"
proof -
  show "feature (pt_data f) ''Worst Gleason Grade Group'' =
          Some (PyInt (max (max (base_findings f) (mid_findings f)) (apex_findings f)))"
    if h: "taken_core f \<noteq> 0" "int_truediv (pos_core f) (taken_core f) \<noteq> Inl OverflowError"
  proof -
    obtain q where "int_truediv (pos_core f) (taken_core f) = Inr q"
      using pt_data_returns [OF assms h] by blast
    then show ?thesis
      by (simp add: feature_def lookup_def pt_data_Inr [OF assms] worst_left)
  qed
  show "feature (pt_data_r f) ''Worst Gleason Grade Group'' =
          Some (PyInt (max (max (base_findings f) (mid_findings f)) (apex_findings f)))"
    if h: "taken_core_r f \<noteq> 0"
      "int_truediv (pos_core_r f) (taken_core_r f) \<noteq> Inl OverflowError"
  proof -
    obtain q where "int_truediv (pos_core_r f) (taken_core_r f) = Inr q"
      using pt_data_r_returns [OF assms h] by blast
    then show ?thesis
      by (simp add: feature_def lookup_def pt_data_r_Inr [OF assms] worst_left)
  qed
qed

text \<open>The cores of the default submission: 3 of 6 on the left, 5 of 8 on the right.\<close>

lemma int_truediv_examples:
  "int_truediv 3 6 = Inr (1 / 2)"
  "int_truediv 5 8 = Inr (5 / 8)"
  "int_truediv 7 25 = Inr (5044031582654956 / 2 ^ 54)"
  "int_truediv (100 * 7) 25 = Inr 28"
  using round_double_examples by (simp_all add: int_truediv_def)

subsection \<open>A run that raises nothing draws the diagram and calls the explainer\<close>

lemma grade_cases:
  assumes "grade_ok g"
  obtains "g = 0" | "g = 1" | "g = 2" | "g = 3" | "g = 4" | "g = 5"
  using assms unfolding grade_ok_def by arith

lemma site_text_grade:
  assumes "grade_ok g"
  shows "\<exists>name. G_CHOICES g = Some name \<and>
           site_text str g p = Inr (name @ [CHR 0x0A] @ ''% core inv: '' @ str p)"
  using assms by (rule grade_cases) (simp_all add: G_CHOICES_def site_text_def)

lemma paste_grade:
  assumes "grade_ok g"
  shows "paste_bl g = (if g = 0 then [] else [Paste (Flip (Open (corner_file g))) (145, 958)])"
    and "paste_ml g = (if g = 0 then [] else [Paste (Open (mid_file g)) (145, 606)])"
    and "paste_al g = (if g = 0 then [] else [Paste (Open (corner_file g)) (145, 130)])"
    and "paste_br g =
           (if g = 0 then [] else [Paste (Flip (Mirror (Open (corner_file g)))) (1104, 958)])"
    and "paste_mr g = (if g = 0 then [] else [Paste (Open (mid_file g)) (1542, 606)])"
    and "paste_ar g = (if g = 0 then [] else [Paste (Mirror (Open (corner_file g))) (1104, 130)])"
  using assms
  by (rule grade_cases;
      simp add: paste_bl_def paste_ml_def paste_al_def paste_br_def paste_mr_def paste_ar_def
        corner_file_def mid_file_def grade_digit_def)+

lemma no_call_in_paste:
  "concat (map shap_values_arg (paste_bl g)) = []"
  "concat (map shap_values_arg (paste_ml g)) = []"
  "concat (map shap_values_arg (paste_al g)) = []"
  "concat (map shap_values_arg (paste_br g)) = []"
  "concat (map shap_values_arg (paste_mr g)) = []"
  "concat (map shap_values_arg (paste_ar g)) = []"
  by (simp_all add: paste_bl_def paste_ml_def paste_al_def paste_br_def paste_mr_def
        paste_ar_def)

lemma submitted_returns:
  assumes "pt_data f = Inr d" and "pt_data_r f = Inr d_r"
    and "site_text str (base_findings f) (base_p_inv f) = Inr base_L"
    and "site_text str (mid_findings f) (mid_p_inv f) = Inr mid_L"
    and "site_text str (apex_findings f) (apex_p_inv f) = Inr apex_L"
    and "site_text str (base_findings_r f) (base_p_inv_r f) = Inr base_R"
    and "site_text str (mid_findings_r f) (mid_p_inv_r f) = Inr mid_R"
    and "site_text str (apex_findings_r f) (apex_p_inv_r f) = Inr apex_R"
  shows "submitted str f =
     (paste_bl (base_findings f) @ paste_ml (mid_findings f) @
      paste_al (apex_findings f) @ paste_br (base_findings_r f) @
      paste_mr (mid_findings_r f) @ paste_ar (apex_findings_r f) @
      [DrawText (525, 1110) base_L, DrawText (205, 690) mid_L,
       DrawText (525, 275) apex_L, DrawText (1300, 1110) base_R,
       DrawText (1590, 690) mid_R, DrawText (1300, 275) apex_R,
       ShapValues d, ShapValues d_r], None)"
  using assms by (simp add: submitted_def try_bind_def)

lemma submitted_calls_explainer:
  assumes "pt_data f = Inr d" and "pt_data_r f = Inr d_r"
    and "grade_ok (base_findings f)" and "grade_ok (mid_findings f)"
    and "grade_ok (apex_findings f)" and "grade_ok (base_findings_r f)"
    and "grade_ok (mid_findings_r f)" and "grade_ok (apex_findings_r f)"
  shows "snd (submitted str f) = None \<and> explainer_calls (submitted str f) = [d, d_r]"
proof -
  obtain bl ml al br mr ar where
    "site_text str (base_findings f) (base_p_inv f) = Inr bl"
    "site_text str (mid_findings f) (mid_p_inv f) = Inr ml"
    "site_text str (apex_findings f) (apex_p_inv f) = Inr al"
    "site_text str (base_findings_r f) (base_p_inv_r f) = Inr br"
    "site_text str (mid_findings_r f) (mid_p_inv_r f) = Inr mr"
    "site_text str (apex_findings_r f) (apex_p_inv_r f) = Inr ar"
    using site_text_grade assms(3-8) by meson
  then show ?thesis
    by (simp add: submitted_returns [OF assms(1,2)] explainer_calls_def no_call_in_paste)
qed

section \<open>The claims\<close>

text \<open>
  C1. Claimed: each lobe's WorstGradeGroup is the maximum grade over that lobe's own three
  sites, so the right vector holds max(rightBaseGrade, rightMidGrade, rightApexGrade)
  whatever the left grades are. The left dictionary does so
  (\<open>worst_grade_group_values\<close>). The right dictionary reads the column of
  \<^verbatim>\<open>sort_g_p_inv\<close>, the left lobe's frame, although \<^verbatim>\<open>sort_g_p_inv_r\<close> is built two
  lines above and is what its \<^verbatim>\<open>'Max % core involvement'\<close> reads. On the default
  submission (left grades 3, 3, 0; right grades 5, 4, 3) the right vector stores 3, the
  left maximum, where the claim says 5.
\<close>

theorem right_worst_grade_group_reads_left_lobe:
  "gleason_t default_form = [3, 3, 0] \<and>
   gleason_t_r default_form = [5, 4, 3] \<and>
   feature (pt_data default_form) ''Worst Gleason Grade Group'' = Some (PyInt 3) \<and>
   feature (pt_data_r default_form) ''Worst Gleason Grade Group'' = Some (PyInt 3)"
  using worst_grade_group_values [of default_form] int_truediv_examples
  by (simp add: gleason_t_def gleason_t_r_def default_form_def)

text \<open>
  C2, as amended. For every lobe whose derivation returns, \<^verbatim>\<open>'Max % core involvement'\<close>
  is the maximum of the three sites' involvements, whatever their grades: it is
  \<^verbatim>\<open>.max()\<close> of the involvement column, which the sort does not change. With two sites
  tied at grade 4 with involvements 30 and 60 and a third at grade 2 with involvement 90,
  the value is 90. A derivation returns when the volume and the lobe's cores taken are
  not zero and the quotient of its core counts is not too large for a float, which no
  count below \<open>2 ^ 1023\<close> is (\<open>int_truediv_no_overflow\<close>).
\<close>

theorem max_core_involvement_is_column_maximum:
  "(vol f \<noteq> 0 \<and> taken_core f \<noteq> 0 \<and>
    int_truediv (pos_core f) (taken_core f) \<noteq> Inl OverflowError \<longrightarrow>
      feature (pt_data f) ''Max % core involvement'' =
        Some (PyFloat (max (max (base_p_inv f) (mid_p_inv f)) (apex_p_inv f)))) \<and>
   (vol f \<noteq> 0 \<and> taken_core_r f \<noteq> 0 \<and>
    int_truediv (pos_core_r f) (taken_core_r f) \<noteq> Inl OverflowError \<longrightarrow>
      feature (pt_data_r f) ''Max % core involvement'' =
        Some (PyFloat (max (max (base_p_inv_r f) (mid_p_inv_r f)) (apex_p_inv_r f))))"
proof (intro conjI impI)
  assume h: "vol f \<noteq> 0 \<and> taken_core f \<noteq> 0 \<and>
    int_truediv (pos_core f) (taken_core f) \<noteq> Inl OverflowError"
  then obtain q where "int_truediv (pos_core f) (taken_core f) = Inr q"
    using pt_data_returns [of f] by blast
  with h show "feature (pt_data f) ''Max % core involvement'' =
        Some (PyFloat (max (max (base_p_inv f) (mid_p_inv f)) (apex_p_inv f)))"
    by (simp add: feature_def lookup_def pt_data_Inr [of f q] max_inv_left)
next
  assume h: "vol f \<noteq> 0 \<and> taken_core_r f \<noteq> 0 \<and>
    int_truediv (pos_core_r f) (taken_core_r f) \<noteq> Inl OverflowError"
  then obtain q where "int_truediv (pos_core_r f) (taken_core_r f) = Inr q"
    using pt_data_r_returns [of f] by blast
  with h show "feature (pt_data_r f) ''Max % core involvement'' =
        Some (PyFloat (max (max (base_p_inv_r f) (mid_p_inv_r f)) (apex_p_inv_r f)))"
    by (simp add: feature_def lookup_def pt_data_r_Inr [of f q] max_inv_right)
qed

text \<open>On the scenario's left lobe, and on the default right lobe.\<close>

theorem max_core_involvement_is_column_maximum_witness:
  "feature (pt_data tied_form) ''Max % core involvement'' = Some (PyFloat 90) \<and>
   feature (pt_data_r tied_form) ''Max % core involvement'' = Some (PyFloat 45)"
  using max_core_involvement_is_column_maximum [of tied_form]
  by (simp add: tied_form_def default_form_def int_truediv_no_overflow)

text \<open>
  The claim as first stated fails on the scenario it names: the first row of the sorted
  frame has involvement 60, and the dictionary stores 90, the involvement of the grade 2
  site.
\<close>

theorem max_core_involvement_not_dominant_site:
  "sort_g_p_inv tied_form = [(4, 60), (4, 30), (2, 90)] \<and>
   spec_dominant_involvement (g_p_inv tied_form) = PyFloat 60 \<and>
   feature (pt_data tied_form) ''Max % core involvement'' = Some (PyFloat 90) \<and>
   feature (pt_data tied_form) ''Max % core involvement'' \<noteq>
     Some (spec_dominant_involvement (g_p_inv tied_form))"
proof -
  have q: "int_truediv (pos_core tied_form) (taken_core tied_form) = Inr (1 / 2)"
    using int_truediv_examples by (simp add: tied_form_def default_form_def)
  have v: "vol tied_form \<noteq> 0" by (simp add: tied_form_def default_form_def)
  have "feature (pt_data tied_form) ''Max % core involvement'' =
      Some (PyFloat (max (max (base_p_inv tied_form) (mid_p_inv tied_form))
        (apex_p_inv tied_form)))"
    by (simp add: feature_def lookup_def pt_data_Inr [OF v q] max_inv_left)
  then have "feature (pt_data tied_form) ''Max % core involvement'' = Some (PyFloat 90)"
    by (simp add: tied_form_def default_form_def)
  moreover have "sort_g_p_inv tied_form = [(4, 60), (4, 30), (2, 90)]"
    by (simp add: tied_form_def default_form_def sort_g_p_inv_def g_p_inv_def gleason_t_def
          p_inv_t_def row_before_def)
  moreover have "spec_dominant_involvement (g_p_inv tied_form) = PyFloat 60"
    by (simp add: tied_form_def default_form_def spec_dominant_involvement_def g_p_inv_def
          gleason_t_def p_inv_t_def row_before_def)
  ultimately show ?thesis by simp
qed

text \<open>
  C3, as amended. For a lobe with more than zero cores taken whose vector is built,
  \<^verbatim>\<open>'% positive cores'\<close> is \<^verbatim>\<open>(pos_core/taken_core)*100\<close> as doubles compute it: the
  quotient of the two counts rounded to a double \<open>q\<close>, then \<open>q\<close> times 100 rounded to a
  double. That is 50.0 for 3 of 6 cores and 28.000000000000004 for 7 of 25. With zero
  cores taken in a lobe, that lobe's derivation raises \<^verbatim>\<open>ZeroDivisionError\<close>, the run
  ends before any event, and the explainer is called on nothing; the run's exception
  is \<^verbatim>\<open>ZeroDivisionError\<close> unless the left quotient overflowed first.
\<close>

theorem percent_positive_cores:
  "(vol f \<noteq> 0 \<and> 0 < taken_core f \<and>
    int_truediv (pos_core f) (taken_core f) \<noteq> Inl OverflowError \<longrightarrow>
      (\<exists>q. round_double (real_of_int (pos_core f) / real_of_int (taken_core f)) = PyFloat q \<and>
           feature (pt_data f) ''% positive cores'' = Some (round_double (q * 100)))) \<and>
   (vol f \<noteq> 0 \<and> 0 < taken_core_r f \<and>
    int_truediv (pos_core_r f) (taken_core_r f) \<noteq> Inl OverflowError \<longrightarrow>
      (\<exists>q. round_double (real_of_int (pos_core_r f) / real_of_int (taken_core_r f)) =
             PyFloat q \<and>
           feature (pt_data_r f) ''% positive cores'' = Some (round_double (q * 100)))) \<and>
   (taken_core f = 0 \<longrightarrow>
      pt_data f = Inl ZeroDivisionError \<and>
      submitted str f = ([], Some ZeroDivisionError) \<and>
      explainer_calls (submitted str f) = []) \<and>
   (taken_core_r f = 0 \<longrightarrow>
      pt_data_r f = Inl ZeroDivisionError \<and>
      fst (submitted str f) = [] \<and>
      explainer_calls (submitted str f) = []) \<and>
   (taken_core_r f = 0 \<and> int_truediv (pos_core f) (taken_core f) \<noteq> Inl OverflowError \<longrightarrow>
      submitted str f = ([], Some ZeroDivisionError))"
proof (intro conjI impI)
  assume h: "vol f \<noteq> 0 \<and> 0 < taken_core f \<and>
    int_truediv (pos_core f) (taken_core f) \<noteq> Inl OverflowError"
  then obtain q where
    q: "round_double (real_of_int (pos_core f) / real_of_int (taken_core f)) = PyFloat q"
    "int_truediv (pos_core f) (taken_core f) = Inr q"
    using pt_data_returns [of f] by (metis less_irrefl)
  from h q(2) have "feature (pt_data f) ''% positive cores'' = Some (round_double (q * 100))"
    by (simp add: feature_def lookup_def pt_data_Inr [of f q])
  with q(1) show "\<exists>q. round_double (real_of_int (pos_core f) / real_of_int (taken_core f)) =
      PyFloat q \<and> feature (pt_data f) ''% positive cores'' = Some (round_double (q * 100))"
    by blast
next
  assume h: "vol f \<noteq> 0 \<and> 0 < taken_core_r f \<and>
    int_truediv (pos_core_r f) (taken_core_r f) \<noteq> Inl OverflowError"
  then obtain q where
    q: "round_double (real_of_int (pos_core_r f) / real_of_int (taken_core_r f)) = PyFloat q"
    "int_truediv (pos_core_r f) (taken_core_r f) = Inr q"
    using pt_data_r_returns [of f] by (metis less_irrefl)
  from h q(2) have "feature (pt_data_r f) ''% positive cores'' = Some (round_double (q * 100))"
    by (simp add: feature_def lookup_def pt_data_r_Inr [of f q])
  with q(1) show "\<exists>q. round_double (real_of_int (pos_core_r f) / real_of_int (taken_core_r f)) =
      PyFloat q \<and> feature (pt_data_r f) ''% positive cores'' = Some (round_double (q * 100))"
    by blast
next
  assume z: "taken_core f = 0"
  then show l: "pt_data f = Inl ZeroDivisionError" by (simp add: pt_data_Inl)
  then show s: "submitted str f = ([], Some ZeroDivisionError)" by (rule submitted_raises)
  then show "explainer_calls (submitted str f) = []" by (simp add: explainer_calls_def)
next
  assume z: "taken_core_r f = 0"
  then show r: "pt_data_r f = Inl ZeroDivisionError" by (simp add: pt_data_r_Inl)
  then show e: "fst (submitted str f) = []" using submitted_no_events [of f] by blast
  then show "explainer_calls (submitted str f) = []" by (simp add: explainer_calls_def)
next
  assume h: "taken_core_r f = 0 \<and>
    int_truediv (pos_core f) (taken_core f) \<noteq> Inl OverflowError"
  then have r: "pt_data_r f = Inl ZeroDivisionError" by (simp add: pt_data_r_Inl)
  show "submitted str f = ([], Some ZeroDivisionError)"
  proof (cases "vol f = 0 \<or> taken_core f = 0")
    case True
    then have "pt_data f = Inl ZeroDivisionError" by (rule pt_data_Inl)
    then show ?thesis by (rule submitted_raises)
  next
    case False
    then obtain q where "int_truediv (pos_core f) (taken_core f) = Inr q"
      using h pt_data_returns [of f] by blast
    with False have "\<exists>d. pt_data f = Inr d" by (simp add: pt_data_Inr [of f q])
    then show ?thesis using r submitted_raises_r by blast
  qed
qed

text \<open>
  On the default submission (3 of 6 and 5 of 8 cores) and on the two submissions with
  no core taken in one lobe.
\<close>

theorem percent_positive_cores_witness:
  "feature (pt_data default_form) ''% positive cores'' = Some (PyFloat 50) \<and>
   feature (pt_data_r default_form) ''% positive cores'' = Some (PyFloat 62.5) \<and>
   pt_data no_cores_form = Inl ZeroDivisionError \<and>
   pt_data_r no_cores_r_form = Inl ZeroDivisionError \<and>
   submitted str_default no_cores_form = ([], Some ZeroDivisionError) \<and>
   explainer_calls (submitted str_default no_cores_form) = [] \<and>
   submitted str_default no_cores_r_form = ([], Some ZeroDivisionError) \<and>
   explainer_calls (submitted str_default no_cores_r_form) = []"
proof -
  note t = percent_positive_cores [of default_form str_default]
  have h: "vol default_form \<noteq> 0" "0 < taken_core default_form"
    "int_truediv (pos_core default_form) (taken_core default_form) \<noteq> Inl OverflowError"
    "0 < taken_core_r default_form"
    "int_truediv (pos_core_r default_form) (taken_core_r default_form) \<noteq> Inl OverflowError"
    by (simp_all add: default_form_def int_truediv_no_overflow)
  obtain q where q:
    "round_double (real_of_int (pos_core default_form) / real_of_int (taken_core default_form))
       = PyFloat q"
    "feature (pt_data default_form) ''% positive cores'' = Some (round_double (q * 100))"
    using t h by blast
  have "real_of_int (pos_core default_form) / real_of_int (taken_core default_form) = 3 / 6"
    by (simp add: default_form_def)
  with q(1) have "q = 1 / 2" by (simp only: round_double_examples pyval.inject)
  with q(2) have l: "feature (pt_data default_form) ''% positive cores'' = Some (PyFloat 50)"
    by (simp only: round_double_examples)
  obtain q' where q':
    "round_double
       (real_of_int (pos_core_r default_form) / real_of_int (taken_core_r default_form))
       = PyFloat q'"
    "feature (pt_data_r default_form) ''% positive cores'' = Some (round_double (q' * 100))"
    using t h by blast
  have "real_of_int (pos_core_r default_form) / real_of_int (taken_core_r default_form) = 5 / 8"
    by (simp add: default_form_def)
  with q'(1) have "q' = 5 / 8" by (simp only: round_double_examples pyval.inject)
  with q'(2) have r: "feature (pt_data_r default_form) ''% positive cores'' =
      Some (PyFloat (125 / 2))"
    by (simp only: round_double_examples)
  have n: "taken_core no_cores_form = 0" by (simp add: no_cores_form_def)
  have a: "pt_data no_cores_form = Inl ZeroDivisionError \<and>
      submitted str_default no_cores_form = ([], Some ZeroDivisionError) \<and>
      explainer_calls (submitted str_default no_cores_form) = []"
    using percent_positive_cores [of no_cores_form str_default] n by blast
  have n': "taken_core_r no_cores_r_form = 0"
    "int_truediv (pos_core no_cores_r_form) (taken_core no_cores_r_form) \<noteq> Inl OverflowError"
    by (simp_all add: no_cores_r_form_def default_form_def int_truediv_no_overflow)
  have b: "pt_data_r no_cores_r_form = Inl ZeroDivisionError \<and>
      explainer_calls (submitted str_default no_cores_r_form) = [] \<and>
      submitted str_default no_cores_r_form = ([], Some ZeroDivisionError)"
    using percent_positive_cores [of no_cores_r_form str_default] n' by blast
  show ?thesis
    using l r a b by (simp add: explainer_calls_def)
qed

text \<open>
  The claim as first stated fails on 7 positive cores of 25 taken, values the form
  accepts: 100 times 7 over 25 is 28, also when \<^verbatim>\<open>100*7/25\<close> is computed in doubles, and
  the dictionary stores the next double above 28, which Python prints as
  \<^verbatim>\<open>28.000000000000004\<close>.
\<close>

theorem percent_positive_cores_not_exact:
  "in_domain seven_of_25_form \<and>
   int_truediv (100 * pos_core seven_of_25_form) (taken_core seven_of_25_form) = Inr 28 \<and>
   feature (pt_data seven_of_25_form) ''% positive cores'' =
     Some (PyFloat (28 + 1 / 2 ^ 48)) \<and>
   feature (pt_data seven_of_25_form) ''% positive cores'' \<noteq>
     Some (PyFloat (100 * real_of_int (pos_core seven_of_25_form) /
                      real_of_int (taken_core seven_of_25_form)))"
proof -
  have q: "int_truediv (pos_core seven_of_25_form) (taken_core seven_of_25_form) =
      Inr (5044031582654956 / 2 ^ 54)"
    using int_truediv_examples by (simp add: seven_of_25_form_def default_form_def)
  have v: "vol seven_of_25_form \<noteq> 0"
    by (simp add: seven_of_25_form_def default_form_def)
  have "feature (pt_data seven_of_25_form) ''% positive cores'' =
      Some (round_double (5044031582654956 / 2 ^ 54 * 100))"
    by (simp add: feature_def lookup_def pt_data_Inr [OF v q])
  then have "feature (pt_data seven_of_25_form) ''% positive cores'' =
      Some (PyFloat (7881299347898369 / 2 ^ 48))"
    by (simp only: round_double_examples)
  moreover have "in_domain seven_of_25_form"
    by (simp add: in_domain_def grade_ok_def percent_ok_def cores_ok_def seven_of_25_form_def
          default_form_def)
  moreover have
    "int_truediv (100 * pos_core seven_of_25_form) (taken_core seven_of_25_form) = Inr 28"
    using int_truediv_examples by (simp add: seven_of_25_form_def default_form_def)
  ultimately show ?thesis
    by (simp add: seven_of_25_form_def default_form_def)
qed

text \<open>
  C4, as amended. With a volume above zero, \<^verbatim>\<open>'PSA density'\<close> of every vector that is
  built is \<^verbatim>\<open>psa/vol\<close> as doubles compute it: the double nearest to PSA over volume, or
  the float infinity when that quotient is beyond the range of doubles, as for a PSA of
  200 and a volume of \<open>2 powi (-1030)\<close>. It is the same in the left and the right
  dictionary. With a volume of zero both derivations raise \<^verbatim>\<open>ZeroDivisionError\<close> and
  the run ends with it: no value stands in for the density.
\<close>

theorem psa_density:
  "(0 < vol f \<and> taken_core f \<noteq> 0 \<and>
    int_truediv (pos_core f) (taken_core f) \<noteq> Inl OverflowError \<longrightarrow>
      feature (pt_data f) ''PSA density'' = Some (round_double (psa f / vol f))) \<and>
   (0 < vol f \<and> taken_core_r f \<noteq> 0 \<and>
    int_truediv (pos_core_r f) (taken_core_r f) \<noteq> Inl OverflowError \<longrightarrow>
      feature (pt_data_r f) ''PSA density'' = Some (round_double (psa f / vol f))) \<and>
   (vol f = 0 \<longrightarrow>
      pt_data f = Inl ZeroDivisionError \<and> pt_data_r f = Inl ZeroDivisionError \<and>
      submitted str f = ([], Some ZeroDivisionError))"
proof (intro conjI impI)
  assume h: "0 < vol f \<and> taken_core f \<noteq> 0 \<and>
    int_truediv (pos_core f) (taken_core f) \<noteq> Inl OverflowError"
  then obtain q where "int_truediv (pos_core f) (taken_core f) = Inr q"
    using pt_data_returns [of f] by (metis less_irrefl)
  with h show "feature (pt_data f) ''PSA density'' = Some (round_double (psa f / vol f))"
    by (simp add: feature_def lookup_def pt_data_Inr [of f q])
next
  assume h: "0 < vol f \<and> taken_core_r f \<noteq> 0 \<and>
    int_truediv (pos_core_r f) (taken_core_r f) \<noteq> Inl OverflowError"
  then obtain q where "int_truediv (pos_core_r f) (taken_core_r f) = Inr q"
    using pt_data_r_returns [of f] by (metis less_irrefl)
  with h show "feature (pt_data_r f) ''PSA density'' = Some (round_double (psa f / vol f))"
    by (simp add: feature_def lookup_def pt_data_r_Inr [of f q])
next
  assume z: "vol f = 0"
  then show l: "pt_data f = Inl ZeroDivisionError" by (simp add: pt_data_Inl)
  from z show "pt_data_r f = Inl ZeroDivisionError" by (simp add: pt_data_r_Inl)
  from l show "submitted str f = ([], Some ZeroDivisionError)" by (rule submitted_raises)
qed

text \<open>
  On the default submission (7.0 over 40.0, the double Python prints as \<^verbatim>\<open>0.175\<close>), on
  the submission with the smallest of volumes, and on the one with volume zero.
\<close>

theorem psa_density_witness:
  "feature (pt_data default_form) ''PSA density'' =
     Some (PyFloat (3152519739159347 / 2 ^ 54)) \<and>
   feature (pt_data_r default_form) ''PSA density'' =
     Some (PyFloat (3152519739159347 / 2 ^ 54)) \<and>
   feature (pt_data tiny_volume_form) ''PSA density'' = Some PyInf \<and>
   feature (pt_data_r tiny_volume_form) ''PSA density'' = Some PyInf \<and>
   pt_data no_volume_form = Inl ZeroDivisionError \<and>
   pt_data_r no_volume_form = Inl ZeroDivisionError \<and>
   submitted str_default no_volume_form = ([], Some ZeroDivisionError)"
  using psa_density [of default_form] psa_density [of no_volume_form str_default]
    psa_density [of tiny_volume_form]
    round_double_examples round_double_tiny_volume
  by (simp add: default_form_def no_volume_form_def tiny_volume_form_def
        int_truediv_no_overflow)

text \<open>
  The claim as first stated fails on values the form accepts. With a PSA of 1.0 and a
  volume of 3.0 the dictionary stores the double Python prints as
  \<^verbatim>\<open>0.3333333333333333\<close>, which is not a third. With a PSA of 200.0 and a volume of
  \<open>2 powi (-1030)\<close>, above zero, the derivation does not fail and stores the float
  infinity, which is no quotient of the two.
\<close>

theorem psa_density_not_exact:
  "in_domain one_third_form \<and>
   feature (pt_data one_third_form) ''PSA density'' =
     Some (PyFloat (6004799503160661 / 2 ^ 54)) \<and>
   feature (pt_data one_third_form) ''PSA density'' \<noteq>
     Some (PyFloat (psa one_third_form / vol one_third_form)) \<and>
   in_domain tiny_volume_form \<and> 0 < vol tiny_volume_form \<and>
   feature (pt_data tiny_volume_form) ''PSA density'' = Some PyInf"
proof -
  have q: "int_truediv (pos_core one_third_form) (taken_core one_third_form) = Inr (1 / 2)"
    "int_truediv (pos_core tiny_volume_form) (taken_core tiny_volume_form) = Inr (1 / 2)"
    using int_truediv_examples
    by (simp_all add: one_third_form_def tiny_volume_form_def default_form_def)
  have v: "vol one_third_form \<noteq> 0" "vol tiny_volume_form \<noteq> 0"
    by (simp_all add: one_third_form_def tiny_volume_form_def default_form_def)
  have "feature (pt_data one_third_form) ''PSA density'' =
      Some (round_double (psa one_third_form / vol one_third_form))"
    by (simp add: feature_def lookup_def pt_data_Inr [OF v(1) q(1)])
  then have a: "feature (pt_data one_third_form) ''PSA density'' =
      Some (PyFloat (6004799503160661 / 2 ^ 54))"
    using round_double_examples by (simp add: one_third_form_def default_form_def)
  have "feature (pt_data tiny_volume_form) ''PSA density'' =
      Some (round_double (psa tiny_volume_form / vol tiny_volume_form))"
    by (simp add: feature_def lookup_def pt_data_Inr [OF v(2) q(2)])
  then have b: "feature (pt_data tiny_volume_form) ''PSA density'' = Some PyInf"
    using round_double_tiny_volume by (simp add: tiny_volume_form_def default_form_def)
  have d: "in_domain one_third_form" "in_domain tiny_volume_form"
    by (simp_all add: in_domain_def grade_ok_def percent_ok_def cores_ok_def
          one_third_form_def tiny_volume_form_def default_form_def)
  show ?thesis
    using a b d by (simp add: one_third_form_def tiny_volume_form_def default_form_def)
qed

text \<open>
  C5. For every lobe whose derivation returns, \<^verbatim>\<open>'Base finding'\<close> and the base, mid
  and apex \<^verbatim>\<open>'% core involvement'\<close> are the raw inputs of the site of that name in
  that lobe, for all values of the findings and involvements.
\<close>

theorem positional_fields_are_raw_inputs:
  "(vol f \<noteq> 0 \<and> taken_core f \<noteq> 0 \<and>
    int_truediv (pos_core f) (taken_core f) \<noteq> Inl OverflowError \<longrightarrow>
      feature (pt_data f) ''Base finding'' = Some (PyInt (base_findings f)) \<and>
      feature (pt_data f) ''Base % core involvement'' = Some (PyFloat (base_p_inv f)) \<and>
      feature (pt_data f) ''Mid % core involvement'' = Some (PyFloat (mid_p_inv f)) \<and>
      feature (pt_data f) ''Apex % core involvement'' = Some (PyFloat (apex_p_inv f))) \<and>
   (vol f \<noteq> 0 \<and> taken_core_r f \<noteq> 0 \<and>
    int_truediv (pos_core_r f) (taken_core_r f) \<noteq> Inl OverflowError \<longrightarrow>
      feature (pt_data_r f) ''Base finding'' = Some (PyInt (base_findings_r f)) \<and>
      feature (pt_data_r f) ''Base % core involvement'' = Some (PyFloat (base_p_inv_r f)) \<and>
      feature (pt_data_r f) ''Mid % core involvement'' = Some (PyFloat (mid_p_inv_r f)) \<and>
      feature (pt_data_r f) ''Apex % core involvement'' = Some (PyFloat (apex_p_inv_r f)))"
proof (intro conjI impI)
  assume h: "vol f \<noteq> 0 \<and> taken_core f \<noteq> 0 \<and>
    int_truediv (pos_core f) (taken_core f) \<noteq> Inl OverflowError"
  then obtain q where "int_truediv (pos_core f) (taken_core f) = Inr q"
    using pt_data_returns [of f] by blast
  with h have d: "pt_data f = Inr
     [(''Age at Biopsy'', PyInt (age f)),
      (''Worst Gleason Grade Group'', series_max PyInt (col_Gleason (sort_g_p_inv f))),
      (''PSA density'', round_double (psa f / vol f)),
      (''Perineural invasion'', PyInt (perineural_inv f)),
      (''% positive cores'', round_double (q * 100)),
      (''% Gleason pattern 4/5'', PyFloat (p_high f)),
      (''Max % core involvement'', series_max PyFloat (col_core_involvement (sort_g_p_inv f))),
      (''Base finding'', PyInt (base_findings f)),
      (''Base % core involvement'', PyFloat (base_p_inv f)),
      (''Mid % core involvement'', PyFloat (mid_p_inv f)),
      (''Apex % core involvement'', PyFloat (apex_p_inv f))]"
    by (simp add: pt_data_Inr)
  show "feature (pt_data f) ''Base finding'' = Some (PyInt (base_findings f))"
    by (simp add: d feature_def lookup_def)
  show "feature (pt_data f) ''Base % core involvement'' = Some (PyFloat (base_p_inv f))"
    by (simp add: d feature_def lookup_def)
  show "feature (pt_data f) ''Mid % core involvement'' = Some (PyFloat (mid_p_inv f))"
    by (simp add: d feature_def lookup_def)
  show "feature (pt_data f) ''Apex % core involvement'' = Some (PyFloat (apex_p_inv f))"
    by (simp add: d feature_def lookup_def)
next
  assume h: "vol f \<noteq> 0 \<and> taken_core_r f \<noteq> 0 \<and>
    int_truediv (pos_core_r f) (taken_core_r f) \<noteq> Inl OverflowError"
  then obtain q where "int_truediv (pos_core_r f) (taken_core_r f) = Inr q"
    using pt_data_r_returns [of f] by blast
  with h have d: "pt_data_r f = Inr
     [(''Age at Biopsy'', PyInt (age f)),
      (''Worst Gleason Grade Group'', series_max PyInt (col_Gleason (sort_g_p_inv f))),
      (''PSA density'', round_double (psa f / vol f)),
      (''Perineural invasion'', PyInt (perineural_inv f)),
      (''% positive cores'', round_double (q * 100)),
      (''% Gleason pattern 4/5'', PyFloat (p_high f)),
      (''Max % core involvement'',
         series_max PyFloat (col_core_involvement (sort_g_p_inv_r f))),
      (''Base finding'', PyInt (base_findings_r f)),
      (''Base % core involvement'', PyFloat (base_p_inv_r f)),
      (''Mid % core involvement'', PyFloat (mid_p_inv_r f)),
      (''Apex % core involvement'', PyFloat (apex_p_inv_r f))]"
    by (simp add: pt_data_r_Inr)
  show "feature (pt_data_r f) ''Base finding'' = Some (PyInt (base_findings_r f))"
    by (simp add: d feature_def lookup_def)
  show "feature (pt_data_r f) ''Base % core involvement'' = Some (PyFloat (base_p_inv_r f))"
    by (simp add: d feature_def lookup_def)
  show "feature (pt_data_r f) ''Mid % core involvement'' = Some (PyFloat (mid_p_inv_r f))"
    by (simp add: d feature_def lookup_def)
  show "feature (pt_data_r f) ''Apex % core involvement'' = Some (PyFloat (apex_p_inv_r f))"
    by (simp add: d feature_def lookup_def)
qed

text \<open>
  On the submission with two sites tied at grade 4, where the order by severity (mid,
  base, apex) is not the order by position.
\<close>

theorem positional_fields_are_raw_inputs_witness:
  "feature (pt_data tied_form) ''Base finding'' = Some (PyInt 4) \<and>
   feature (pt_data tied_form) ''Base % core involvement'' = Some (PyFloat 30) \<and>
   feature (pt_data tied_form) ''Mid % core involvement'' = Some (PyFloat 60) \<and>
   feature (pt_data tied_form) ''Apex % core involvement'' = Some (PyFloat 90) \<and>
   feature (pt_data_r tied_form) ''Base finding'' = Some (PyInt 5) \<and>
   feature (pt_data_r tied_form) ''Base % core involvement'' = Some (PyFloat 45) \<and>
   feature (pt_data_r tied_form) ''Mid % core involvement'' = Some (PyFloat 45) \<and>
   feature (pt_data_r tied_form) ''Apex % core involvement'' = Some (PyFloat 20)"
  using positional_fields_are_raw_inputs [of tied_form]
  by (simp add: tied_form_def default_form_def int_truediv_no_overflow)

text \<open>
  C6. Every dictionary a derivation returns has exactly the eleven keys of
  \<^verbatim>\<open>features_list\<close>, in its order, each once. The keys are the source's names of the
  fields the specification calls AgeAtBiopsy, WorstGradeGroup, PsaDensity,
  PerineuralInvasion, PercentPositiveCores, PercentPatternHighGrade,
  MaxPercentCoreInvolvement, BaseFinding, BasePercentCoreInvolvement,
  MidPercentCoreInvolvement and ApexPercentCoreInvolvement.
\<close>

theorem feature_vector_schema:
  "features_list =
     [''Age at Biopsy'', ''Worst Gleason Grade Group'', ''PSA density'',
      ''Perineural invasion'', ''% positive cores'', ''% Gleason pattern 4/5'',
      ''Max % core involvement'', ''Base finding'', ''Base % core involvement'',
      ''Mid % core involvement'', ''Apex % core involvement''] \<and>
   length features_list = 11 \<and> distinct features_list \<and>
   (vol f \<noteq> 0 \<and> taken_core f \<noteq> 0 \<and>
    int_truediv (pos_core f) (taken_core f) \<noteq> Inl OverflowError \<longrightarrow>
      (\<exists>d. pt_data f = Inr d \<and> map fst d = features_list)) \<and>
   (vol f \<noteq> 0 \<and> taken_core_r f \<noteq> 0 \<and>
    int_truediv (pos_core_r f) (taken_core_r f) \<noteq> Inl OverflowError \<longrightarrow>
      (\<exists>d. pt_data_r f = Inr d \<and> map fst d = features_list))"
proof (intro conjI impI)
  show "features_list =
     [''Age at Biopsy'', ''Worst Gleason Grade Group'', ''PSA density'',
      ''Perineural invasion'', ''% positive cores'', ''% Gleason pattern 4/5'',
      ''Max % core involvement'', ''Base finding'', ''Base % core involvement'',
      ''Mid % core involvement'', ''Apex % core involvement'']"
    by (simp add: features_list_def)
  show "length features_list = 11" by (simp add: features_list_def)
  show "distinct features_list" by (simp add: features_list_def)
next
  assume h: "vol f \<noteq> 0 \<and> taken_core f \<noteq> 0 \<and>
    int_truediv (pos_core f) (taken_core f) \<noteq> Inl OverflowError"
  then obtain q where "int_truediv (pos_core f) (taken_core f) = Inr q"
    using pt_data_returns [of f] by blast
  with h show "\<exists>d. pt_data f = Inr d \<and> map fst d = features_list"
    by (simp add: pt_data_Inr [of f q] features_list_def)
next
  assume h: "vol f \<noteq> 0 \<and> taken_core_r f \<noteq> 0 \<and>
    int_truediv (pos_core_r f) (taken_core_r f) \<noteq> Inl OverflowError"
  then obtain q where "int_truediv (pos_core_r f) (taken_core_r f) = Inr q"
    using pt_data_r_returns [of f] by blast
  with h show "\<exists>d. pt_data_r f = Inr d \<and> map fst d = features_list"
    by (simp add: pt_data_r_Inr [of f q] features_list_def)
qed

text \<open>Both dictionaries of the default submission have these keys.\<close>

theorem feature_vector_schema_witness:
  "(\<exists>d. pt_data default_form = Inr d \<and> map fst d = features_list) \<and>
   (\<exists>d. pt_data_r default_form = Inr d \<and> map fst d = features_list)"
  using feature_vector_schema [of default_form]
  by (simp add: default_form_def int_truediv_no_overflow)

text \<open>
  C8. In a run whose two dictionaries are built and whose six grades are from 0 to 5,
  the diagram receives, for each of the six sites in turn and from that site's own
  grade, nothing at grade 0 and otherwise exactly one overlay: the file of that grade
  (\<^verbatim>\<open>Corner\<close> at base and apex, \<^verbatim>\<open>Mid\<close> at mid), under the transform of the site (left
  base flipped, right base mirrored then flipped, right apex mirrored, the others as
  opened), at the corner of the site. Then it receives six texts, one per site, each
  the name of the site's finding, a line break, \<^verbatim>\<open>'% core inv: '\<close> and the site's
  involvement as \<^verbatim>\<open>str\<close> prints it. The explainer is called after that, on the left
  and then on the right dictionary.
\<close>

theorem diagram_overlays:
  assumes "pt_data f = Inr d" and "pt_data_r f = Inr d_r"
    and "grade_ok (base_findings f)" and "grade_ok (mid_findings f)"
    and "grade_ok (apex_findings f)" and "grade_ok (base_findings_r f)"
    and "grade_ok (mid_findings_r f)" and "grade_ok (apex_findings_r f)"
  shows "\<exists>bl ml al br mr ar.
     G_CHOICES (base_findings f) = Some bl \<and> G_CHOICES (mid_findings f) = Some ml \<and>
     G_CHOICES (apex_findings f) = Some al \<and> G_CHOICES (base_findings_r f) = Some br \<and>
     G_CHOICES (mid_findings_r f) = Some mr \<and> G_CHOICES (apex_findings_r f) = Some ar \<and>
     submitted str f =
       ((if base_findings f = 0 then []
         else [Paste (Flip (Open (corner_file (base_findings f)))) (145, 958)]) @
        (if mid_findings f = 0 then []
         else [Paste (Open (mid_file (mid_findings f))) (145, 606)]) @
        (if apex_findings f = 0 then []
         else [Paste (Open (corner_file (apex_findings f))) (145, 130)]) @
        (if base_findings_r f = 0 then []
         else [Paste (Flip (Mirror (Open (corner_file (base_findings_r f))))) (1104, 958)]) @
        (if mid_findings_r f = 0 then []
         else [Paste (Open (mid_file (mid_findings_r f))) (1542, 606)]) @
        (if apex_findings_r f = 0 then []
         else [Paste (Mirror (Open (corner_file (apex_findings_r f)))) (1104, 130)]) @
        [DrawText (525, 1110) (bl @ [CHR 0x0A] @ ''% core inv: '' @ str (base_p_inv f)),
         DrawText (205, 690) (ml @ [CHR 0x0A] @ ''% core inv: '' @ str (mid_p_inv f)),
         DrawText (525, 275) (al @ [CHR 0x0A] @ ''% core inv: '' @ str (apex_p_inv f)),
         DrawText (1300, 1110) (br @ [CHR 0x0A] @ ''% core inv: '' @ str (base_p_inv_r f)),
         DrawText (1590, 690) (mr @ [CHR 0x0A] @ ''% core inv: '' @ str (mid_p_inv_r f)),
         DrawText (1300, 275) (ar @ [CHR 0x0A] @ ''% core inv: '' @ str (apex_p_inv_r f)),
         ShapValues d, ShapValues d_r], None)"
proof -
  obtain bl where bl: "G_CHOICES (base_findings f) = Some bl"
    "site_text str (base_findings f) (base_p_inv f) =
       Inr (bl @ [CHR 0x0A] @ ''% core inv: '' @ str (base_p_inv f))"
    using site_text_grade [OF assms(3)] by blast
  obtain ml where ml: "G_CHOICES (mid_findings f) = Some ml"
    "site_text str (mid_findings f) (mid_p_inv f) =
       Inr (ml @ [CHR 0x0A] @ ''% core inv: '' @ str (mid_p_inv f))"
    using site_text_grade [OF assms(4)] by blast
  obtain al where al: "G_CHOICES (apex_findings f) = Some al"
    "site_text str (apex_findings f) (apex_p_inv f) =
       Inr (al @ [CHR 0x0A] @ ''% core inv: '' @ str (apex_p_inv f))"
    using site_text_grade [OF assms(5)] by blast
  obtain br where br: "G_CHOICES (base_findings_r f) = Some br"
    "site_text str (base_findings_r f) (base_p_inv_r f) =
       Inr (br @ [CHR 0x0A] @ ''% core inv: '' @ str (base_p_inv_r f))"
    using site_text_grade [OF assms(6)] by blast
  obtain mr where mr: "G_CHOICES (mid_findings_r f) = Some mr"
    "site_text str (mid_findings_r f) (mid_p_inv_r f) =
       Inr (mr @ [CHR 0x0A] @ ''% core inv: '' @ str (mid_p_inv_r f))"
    using site_text_grade [OF assms(7)] by blast
  obtain ar where ar: "G_CHOICES (apex_findings_r f) = Some ar"
    "site_text str (apex_findings_r f) (apex_p_inv_r f) =
       Inr (ar @ [CHR 0x0A] @ ''% core inv: '' @ str (apex_p_inv_r f))"
    using site_text_grade [OF assms(8)] by blast
  have "submitted str f =
     (paste_bl (base_findings f) @ paste_ml (mid_findings f) @
      paste_al (apex_findings f) @ paste_br (base_findings_r f) @
      paste_mr (mid_findings_r f) @ paste_ar (apex_findings_r f) @
      [DrawText (525, 1110) (bl @ [CHR 0x0A] @ ''% core inv: '' @ str (base_p_inv f)),
       DrawText (205, 690) (ml @ [CHR 0x0A] @ ''% core inv: '' @ str (mid_p_inv f)),
       DrawText (525, 275) (al @ [CHR 0x0A] @ ''% core inv: '' @ str (apex_p_inv f)),
       DrawText (1300, 1110) (br @ [CHR 0x0A] @ ''% core inv: '' @ str (base_p_inv_r f)),
       DrawText (1590, 690) (mr @ [CHR 0x0A] @ ''% core inv: '' @ str (mid_p_inv_r f)),
       DrawText (1300, 275) (ar @ [CHR 0x0A] @ ''% core inv: '' @ str (apex_p_inv_r f)),
       ShapValues d, ShapValues d_r], None)"
    by (rule submitted_returns [OF assms(1,2) bl(2) ml(2) al(2) br(2) mr(2) ar(2)])
  then have "submitted str f =
       ((if base_findings f = 0 then []
         else [Paste (Flip (Open (corner_file (base_findings f)))) (145, 958)]) @
        (if mid_findings f = 0 then []
         else [Paste (Open (mid_file (mid_findings f))) (145, 606)]) @
        (if apex_findings f = 0 then []
         else [Paste (Open (corner_file (apex_findings f))) (145, 130)]) @
        (if base_findings_r f = 0 then []
         else [Paste (Flip (Mirror (Open (corner_file (base_findings_r f))))) (1104, 958)]) @
        (if mid_findings_r f = 0 then []
         else [Paste (Open (mid_file (mid_findings_r f))) (1542, 606)]) @
        (if apex_findings_r f = 0 then []
         else [Paste (Mirror (Open (corner_file (apex_findings_r f)))) (1104, 130)]) @
        [DrawText (525, 1110) (bl @ [CHR 0x0A] @ ''% core inv: '' @ str (base_p_inv f)),
         DrawText (205, 690) (ml @ [CHR 0x0A] @ ''% core inv: '' @ str (mid_p_inv f)),
         DrawText (525, 275) (al @ [CHR 0x0A] @ ''% core inv: '' @ str (apex_p_inv f)),
         DrawText (1300, 1110) (br @ [CHR 0x0A] @ ''% core inv: '' @ str (base_p_inv_r f)),
         DrawText (1590, 690) (mr @ [CHR 0x0A] @ ''% core inv: '' @ str (mid_p_inv_r f)),
         DrawText (1300, 275) (ar @ [CHR 0x0A] @ ''% core inv: '' @ str (apex_p_inv_r f)),
         ShapValues d, ShapValues d_r], None)"
    by (simp only: paste_grade(1) [OF assms(3)] paste_grade(2) [OF assms(4)]
          paste_grade(3) [OF assms(5)] paste_grade(4) [OF assms(6)]
          paste_grade(5) [OF assms(7)] paste_grade(6) [OF assms(8)])
  with bl(1) ml(1) al(1) br(1) mr(1) ar(1) show ?thesis by blast
qed

text \<open>
  On the default submission: grade 3 at left base and mid, nothing at the benign left
  apex, grades 5, 4 and 3 on the right.
\<close>

theorem diagram_overlays_witness:
  "\<exists>d d_r. pt_data default_form = Inr d \<and> pt_data_r default_form = Inr d_r \<and>
     submitted str_default default_form =
       ([Paste (Flip (Open ''Images/Corner 3.png'')) (145, 958),
         Paste (Open ''Images/Mid 3.png'') (145, 606),
         Paste (Flip (Mirror (Open ''Images/Corner 5.png''))) (1104, 958),
         Paste (Open ''Images/Mid 4.png'') (1542, 606),
         Paste (Mirror (Open ''Images/Corner 3.png'')) (1104, 130),
         DrawText (525, 1110) (''ISUP Grade 3 (Gleason 4+3)'' @ [CHR 0x0A] @ ''% core inv: 7.5''),
         DrawText (205, 690) (''ISUP Grade 3 (Gleason 4+3)'' @ [CHR 0x0A] @ ''% core inv: 5.0''),
         DrawText (525, 275) (''Benign'' @ [CHR 0x0A] @ ''% core inv: 0.0''),
         DrawText (1300, 1110)
           (''ISUP Grade 5 (Gleason 4+5/5+4/5+5)'' @ [CHR 0x0A] @ ''% core inv: 45.0''),
         DrawText (1590, 690)
           (''ISUP Grade 4 (Gleason 4+4/5+3/3+5)'' @ [CHR 0x0A] @ ''% core inv: 45.0''),
         DrawText (1300, 275) (''ISUP Grade 3 (Gleason 4+3)'' @ [CHR 0x0A] @ ''% core inv: 20.0''),
         ShapValues d, ShapValues d_r], None)"
proof -
  have q: "int_truediv (pos_core default_form) (taken_core default_form) = Inr (1 / 2)"
    "int_truediv (pos_core_r default_form) (taken_core_r default_form) = Inr (5 / 8)"
    using int_truediv_examples by (simp_all add: default_form_def)
  have v: "vol default_form \<noteq> 0" by (simp add: default_form_def)
  obtain d d_r where d: "pt_data default_form = Inr d" "pt_data_r default_form = Inr d_r"
    using pt_data_Inr [OF v q(1)] pt_data_r_Inr [OF v q(2)] by blast
  have g: "grade_ok (base_findings default_form)" "grade_ok (mid_findings default_form)"
    "grade_ok (apex_findings default_form)" "grade_ok (base_findings_r default_form)"
    "grade_ok (mid_findings_r default_form)" "grade_ok (apex_findings_r default_form)"
    by (simp_all add: grade_ok_def default_form_def)
  show ?thesis
    using diagram_overlays [OF d g, of str_default] d
    by (simp add: default_form_def G_CHOICES_def corner_file_def mid_file_def grade_digit_def
          str_default_def)
qed



end
